theory Spec2Isabelle
  imports Main
begin

section \<open>Data model of \<open>src/IssueProcessor.ts\<close>\<close>

text \<open>
  The interfaces of the source become records with the source's field names. Strings are
  lists of code units; the model's \<open>char\<close> covers the code units U+0000 to U+00FF.
  JavaScript numbers are modelled as mathematical integers (\<open>int\<close>): day counts, the
  operation budget, issue numbers and time values in milliseconds are taken to be
  integers of a size a double represents exactly.
  \<open>pull_request\<close> has type \<open>any\<close> in the source and is only read through \<open>!!\<close>, so the
  model keeps its truthiness.
\<close>

record Label =
  name :: string

record Issue =
  title :: string
  number :: int
  updated_at :: string
  labels :: "Label list"
  pull_request :: bool
  state :: string
  locked :: bool

record User =
  type :: string
  login :: string

record Comment =
  user :: User

record IssueEvent =
  created_at :: string
  event :: string
  label :: Label

record IssueProcessorOptions =
  repoToken :: string
  staleIssueMessage :: string
  stalePrMessage :: string
  daysBeforeStale :: int
  daysBeforeClose :: int
  staleIssueLabel :: string
  exemptIssueLabels :: string
  stalePrLabel :: string
  exemptPrLabels :: string
  onlyLabels :: string
  operationsPerRun :: int
  removeStaleWhenUpdated :: bool
  debugOnly :: bool

subsection \<open>The external collaborators and the host runtime\<close>

text \<open>
  Every request the processor sends through \<open>this.client\<close> is recorded, in order, as a
  \<open>call\<close>: the three reads (\<open>issues.listForRepo\<close> with its label filter, page size and
  page; \<open>issues.listComments\<close> with the issue number and the \<open>since\<close> date;
  \<open>issues.listEvents\<close>, paginated, with its page size and the issue number) and the four
  writes (\<open>issues.createComment\<close>, \<open>issues.addLabels\<close>, \<open>issues.update\<close> with the new
  state, \<open>issues.removeLabel\<close>).
\<close>

datatype call =
    ListForRepo string int int
  | ListComments int string
  | ListEvents int int
  | CreateComment int string
  | AddLabels int "string list"
  | Update int string
  | RemoveLabel int string

fun isMutation :: "call \<Rightarrow> bool" where
  "isMutation (ListForRepo l n p) = False"
| "isMutation (ListComments i d) = False"
| "isMutation (ListEvents n i) = False"
| "isMutation (CreateComment i b) = True"
| "isMutation (AddLabels i ls) = True"
| "isMutation (Update i st) = True"
| "isMutation (RemoveLabel i l) = True"


text \<open>A rejected promise of a collaborator: the exception the \<open>await\<close> rethrows.\<close>

datatype error = RequestError call

text \<open>
  What the code takes from outside the repository is a parameter of the model:
  the answers of the client (a read answers \<open>None\<close> when its promise is rejected, a write
  answers whether it succeeded), \<open>github.context.actor\<close>, and the host's library:
  the clock (\<open>clock k\<close> is the time value of the \<open>k\<close>-th \<open>new Date()\<close> of the run),
  \<open>new Date(s).getTime()\<close> (\<open>None\<close> for \<open>NaN\<close>), \<open>Date.prototype.toString\<close>,
  \<open>encodeURIComponent\<close>, and \<open>a.localeCompare(b, undefined, {sensitivity: 'accent'}) === 0\<close>.
  The constructor lets a caller replace \<open>getIssues\<close>, \<open>listIssueComments\<close> and
  \<open>getLabelCreationDate\<close>; the model is of the class with its own three methods.
\<close>

record env =
  issues_listForRepo :: "string \<Rightarrow> int \<Rightarrow> int \<Rightarrow> Issue list option"
  issues_listComments :: "int \<Rightarrow> string \<Rightarrow> Comment list option"
  issues_listEvents :: "int \<Rightarrow> int \<Rightarrow> IssueEvent list option"
  issues_createComment :: "int \<Rightarrow> string \<Rightarrow> bool"
  issues_addLabels :: "int \<Rightarrow> string list \<Rightarrow> bool"
  issues_update :: "int \<Rightarrow> string \<Rightarrow> bool"
  issues_removeLabel :: "int \<Rightarrow> string \<Rightarrow> bool"
  actor :: string
  clock :: "nat \<Rightarrow> int"
  parseDate :: "string \<Rightarrow> int option"
  dateToString :: "int \<Rightarrow> string"
  encodeURIComponent :: "string \<Rightarrow> string"
  localeEquals :: "string \<Rightarrow> string \<Rightarrow> bool"

text \<open>
  The mutable fields of the class, with the log of the requests sent so far and the number
  of clock reads so far. The three lists hold references to issue objects in the source;
  the model stores the issue as the list shows it once the statement that pushed it has
  finished (\<open>markStale\<close> rewrites \<open>updated_at\<close> of the object it has just pushed).
\<close>

record IssueProcessor =
  operationsLeft :: int
  staleIssues :: "Issue list"
  closedIssues :: "Issue list"
  removedLabelIssues :: "Issue list"
  calls :: "call list"
  dates :: nat

definition newProcessor :: "IssueProcessorOptions \<Rightarrow> IssueProcessor" where
  "newProcessor opts =
     \<lparr>operationsLeft = operationsPerRun opts, staleIssues = [], closedIssues = [],
      removedLabelIssues = [], calls = [], dates = 0\<rparr>"

definition request :: "call \<Rightarrow> IssueProcessor \<Rightarrow> IssueProcessor" where
  "request c s = s\<lparr>calls := calls s @ [c]\<rparr>"

definition spend :: "int \<Rightarrow> IssueProcessor \<Rightarrow> IssueProcessor" where
  "spend n s = s\<lparr>operationsLeft := operationsLeft s - n\<rparr>"

definition newDate :: "env \<Rightarrow> IssueProcessor \<Rightarrow> int \<times> IssueProcessor" where
  "newDate e s = (clock e (dates s), s\<lparr>dates := Suc (dates s)\<rparr>)"

section \<open>Pure predicates\<close>

definition isLabeled :: "env \<Rightarrow> Issue \<Rightarrow> string \<Rightarrow> bool" where
  "isLabeled e issue lbl =
     (length (filter (\<lambda>l. localeEquals e lbl (name l)) (labels issue)) > 0)"

definition updatedSince :: "env \<Rightarrow> string \<Rightarrow> int \<Rightarrow> IssueProcessor \<Rightarrow> bool \<times> IssueProcessor" where
  "updatedSince e timestamp num_days s =
     (let daysInMillis = 1000 * 60 * 60 * 24 * num_days;
          (now, s1) = newDate e s
      in (case parseDate e timestamp of
            None \<Rightarrow> False
          | Some t \<Rightarrow> now - t \<le> daysInMillis, s1))"

fun split_comma :: "string \<Rightarrow> string list" where
  "split_comma [] = [[]]"
| "split_comma (c # cs) =
     (if c = CHR '','' then [] # split_comma cs
      else (case split_comma cs of
              [] \<Rightarrow> [[c]]
            | w # ws \<Rightarrow> (c # w) # ws))"

definition isWhiteSpace :: "char \<Rightarrow> bool" where
  "isWhiteSpace c = (of_char c \<in> {9, 10, 11, 12, 13, 32, 160 :: nat})"

definition trim :: "string \<Rightarrow> string" where
  "trim s = rev (dropWhile isWhiteSpace (rev (dropWhile isWhiteSpace s)))"

definition parseCommaSeparatedString :: "string \<Rightarrow> string list" where
  "parseCommaSeparatedString s = (if length s = 0 then [] else map trim (split_comma s))"

section \<open>The processor\<close>

definition getIssues :: "IssueProcessorOptions \<Rightarrow> env \<Rightarrow> int \<Rightarrow> IssueProcessor
    \<Rightarrow> (error + Issue list) \<times> IssueProcessor" where
  "getIssues opts e page s =
     (let c = ListForRepo (onlyLabels opts) 100 page; s1 = request c s
      in case issues_listForRepo e (onlyLabels opts) 100 page of
           None \<Rightarrow> (Inl (RequestError c), s1)
         | Some issues \<Rightarrow> (Inr issues, s1))"

definition listIssueComments :: "env \<Rightarrow> int \<Rightarrow> string \<Rightarrow> IssueProcessor
    \<Rightarrow> (error + Comment list) \<times> IssueProcessor" where
  "listIssueComments e issueNumber sinceDate s =
     (let c = ListComments issueNumber sinceDate; s1 = request c s
      in case issues_listComments e issueNumber sinceDate of
           None \<Rightarrow> (Inl (RequestError c), s1)
         | Some comments \<Rightarrow> (Inr comments, s1))"

definition hasCommentsSince :: "env \<Rightarrow> Issue \<Rightarrow> string \<Rightarrow> IssueProcessor
    \<Rightarrow> (error + bool) \<times> IssueProcessor" where
  "hasCommentsSince e issue sinceDate s =
     (if sinceDate = [] then (Inr True, s)
      else case listIssueComments e (number issue) sinceDate s of
             (Inl err, s1) \<Rightarrow> (Inl err, s1)
           | (Inr comments, s1) \<Rightarrow>
               (let filteredComments =
                      filter (\<lambda>comment. type (user comment) = ''User''
                                \<and> login (user comment) \<noteq> actor e) comments
                in (Inr (length filteredComments > 0), s1)))"

definition getLabelCreationDate :: "env \<Rightarrow> Issue \<Rightarrow> string \<Rightarrow> IssueProcessor
    \<Rightarrow> (error + string option) \<times> IssueProcessor" where
  "getLabelCreationDate e issue lbl s =
     (let s1 = spend 1 s;
          c = ListEvents 100 (number issue);
          s2 = request c s1
      in case issues_listEvents e 100 (number issue) of
           None \<Rightarrow> (Inl (RequestError c), s2)
         | Some events \<Rightarrow>
             (let reversedEvents = rev events
              in case find (\<lambda>ev. event ev = ''labeled'' \<and> name (label ev) = lbl) reversedEvents of
                   None \<Rightarrow> (Inr None, s2)
                 | Some staleLabeledEvent \<Rightarrow> (Inr (Some (created_at staleLabeledEvent)), s2)))"

text \<open>
  \<open>markStale\<close> mutates the issue object it is given; the model returns the issue after the
  mutation beside the processor.
\<close>

definition markStale :: "IssueProcessorOptions \<Rightarrow> env \<Rightarrow> Issue \<Rightarrow> string \<Rightarrow> string
    \<Rightarrow> IssueProcessor \<Rightarrow> (error + unit) \<times> Issue \<times> IssueProcessor" where
  "markStale opts e issue staleMessage staleLabel s =
     (let daysBeforeStaleInMillis = 1000 * 60 * 60 * 24 * daysBeforeStale opts;
          (now, s1) = newDate e (spend 2 s);
          issue1 = issue\<lparr>updated_at := dateToString e (now - daysBeforeStaleInMillis)\<rparr>;
          s2 = s1\<lparr>staleIssues := staleIssues s1 @ [issue1]\<rparr>
      in if debugOnly opts then (Inr (), issue1, s2)
         else
           (let c1 = CreateComment (number issue1) staleMessage; s3 = request c1 s2
            in if \<not> issues_createComment e (number issue1) staleMessage
               then (Inl (RequestError c1), issue1, s3)
               else
                 (let c2 = AddLabels (number issue1) [staleLabel]; s4 = request c2 s3
                  in if \<not> issues_addLabels e (number issue1) [staleLabel]
                     then (Inl (RequestError c2), issue1, s4)
                     else (Inr (), issue1, s4))))"

definition closeIssue :: "IssueProcessorOptions \<Rightarrow> env \<Rightarrow> Issue \<Rightarrow> IssueProcessor
    \<Rightarrow> (error + unit) \<times> IssueProcessor" where
  "closeIssue opts e issue s =
     (let s1 = s\<lparr>closedIssues := closedIssues s @ [issue]\<rparr>;
          s2 = spend 1 s1
      in if debugOnly opts then (Inr (), s2)
         else
           (let c = Update (number issue) ''closed''; s3 = request c s2
            in if \<not> issues_update e (number issue) ''closed''
               then (Inl (RequestError c), s3)
               else (Inr (), s3)))"

definition removeLabel :: "IssueProcessorOptions \<Rightarrow> env \<Rightarrow> Issue \<Rightarrow> string \<Rightarrow> IssueProcessor
    \<Rightarrow> (error + unit) \<times> IssueProcessor" where
  "removeLabel opts e issue lbl s =
     (let s1 = s\<lparr>removedLabelIssues := removedLabelIssues s @ [issue]\<rparr>;
          s2 = spend 1 s1
      in if debugOnly opts then (Inr (), s2)
         else
           (let c = RemoveLabel (number issue) (encodeURIComponent e lbl); s3 = request c s2
            in if \<not> issues_removeLabel e (number issue) (encodeURIComponent e lbl)
               then (Inl (RequestError c), s3)
               else (Inr (), s3)))"

definition processStaleIssue :: "IssueProcessorOptions \<Rightarrow> env \<Rightarrow> Issue \<Rightarrow> string \<Rightarrow> string
    \<Rightarrow> IssueProcessor \<Rightarrow> (error + unit) \<times> IssueProcessor" where
  "processStaleIssue opts e issue issueType staleLabel s =
     (case getLabelCreationDate e issue staleLabel s of
        (Inl err, s1) \<Rightarrow> (Inl err, s1)
      | (Inr created, s1) \<Rightarrow>
          (let markedStaleOn =
                 (case created of
                    None \<Rightarrow> updated_at issue
                  | Some d \<Rightarrow> if d = [] then updated_at issue else d)
           in case hasCommentsSince e issue markedStaleOn s1 of
                (Inl err, s2) \<Rightarrow> (Inl err, s2)
              | (Inr issueHasComments, s2) \<Rightarrow>
                  (let (issueHasUpdate, s3) =
                         updatedSince e (updated_at issue)
                           (daysBeforeClose opts + daysBeforeStale opts) s2
                   in case (if removeStaleWhenUpdated opts \<and> issueHasComments
                            then removeLabel opts e issue staleLabel s3
                            else (Inr (), s3)) of
                        (Inl err, s4) \<Rightarrow> (Inl err, s4)
                      | (Inr u, s4) \<Rightarrow>
                          if daysBeforeClose opts < 0 then (Inr (), s4)
                          else if \<not> issueHasComments \<and> \<not> issueHasUpdate
                               then closeIssue opts e issue s4
                               else (Inr (), s4))))"

text \<open>The body of the \<open>for\<close> loop of \<open>processIssues\<close>, for one issue of the page.\<close>

definition processIssue :: "IssueProcessorOptions \<Rightarrow> env \<Rightarrow> Issue \<Rightarrow> IssueProcessor
    \<Rightarrow> (error + unit) \<times> IssueProcessor" where
  "processIssue opts e issue s =
     (let isPr = pull_request issue;
          staleMessage = (if isPr then stalePrMessage opts else staleIssueMessage opts);
          staleLabel = (if isPr then stalePrLabel opts else staleIssueLabel opts);
          exemptLabels = parseCommaSeparatedString
                           (if isPr then exemptPrLabels opts else exemptIssueLabels opts);
          issueType = (if isPr then ''pr'' else ''issue'')
      in if staleMessage = [] then (Inr (), s)
         else if state issue = ''closed'' then (Inr (), s)
         else if locked issue then (Inr (), s)
         else if list_ex (\<lambda>exemptLabel. isLabeled e issue exemptLabel) exemptLabels
              then (Inr (), s)
         else
           (let isStale = isLabeled e issue staleLabel;
                (updated, s1) = updatedSince e (updated_at issue) (daysBeforeStale opts) s;
                shouldBeStale = \<not> updated
            in if \<not> isStale \<and> shouldBeStale
               then (case markStale opts e issue staleMessage staleLabel s1 of
                       (Inl err, issue1, s2) \<Rightarrow> (Inl err, s2)
                     | (Inr u, issue1, s2) \<Rightarrow> processStaleIssue opts e issue1 issueType staleLabel s2)
               else if isStale then processStaleIssue opts e issue issueType staleLabel s1
               else (Inr (), s1)))"

fun forIssues :: "IssueProcessorOptions \<Rightarrow> env \<Rightarrow> Issue list \<Rightarrow> IssueProcessor
    \<Rightarrow> (error + unit) \<times> IssueProcessor" where
  "forIssues opts e [] s = (Inr (), s)"
| "forIssues opts e (issue # issues) s =
     (case processIssue opts e issue s of
        (Inl err, s1) \<Rightarrow> (Inl err, s1)
      | (Inr u, s1) \<Rightarrow> forIssues opts e issues s1)"

section \<open>The budget never grows\<close>

text \<open>
  What each method does to \<open>operationsLeft\<close>. The recursion of \<open>processIssues\<close> below
  terminates because every page costs a unit and nothing in the class gives one back.
\<close>


lemma request_simps [simp]:
  "operationsLeft (request c s) = operationsLeft s"
  "staleIssues (request c s) = staleIssues s"
  "closedIssues (request c s) = closedIssues s"
  "removedLabelIssues (request c s) = removedLabelIssues s"
  "calls (request c s) = calls s @ [c]"
  "dates (request c s) = dates s"
  by (simp_all add: request_def)

lemma spend_simps [simp]:
  "operationsLeft (spend n s) = operationsLeft s - n"
  "staleIssues (spend n s) = staleIssues s"
  "closedIssues (spend n s) = closedIssues s"
  "removedLabelIssues (spend n s) = removedLabelIssues s"
  "calls (spend n s) = calls s"
  "dates (spend n s) = dates s"
  by (simp_all add: spend_def)

lemma updatedSince_snd: "snd (updatedSince e ts d s) = s\<lparr>dates := Suc (dates s)\<rparr>"
  by (simp add: updatedSince_def newDate_def)

lemma updatedSince_fst:
  "fst (updatedSince e ts d s) =
     (case parseDate e ts of None \<Rightarrow> False | Some t \<Rightarrow> clock e (dates s) - t \<le> 86400000 * d)"
  by (simp add: updatedSince_def newDate_def)

lemma getLabelCreationDate_ops:
  "operationsLeft (snd (getLabelCreationDate e i l s)) = operationsLeft s - 1"
  by (simp add: getLabelCreationDate_def Let_def split: option.splits)

lemma hasCommentsSince_ops:
  "operationsLeft (snd (hasCommentsSince e i d s)) = operationsLeft s"
  by (simp add: hasCommentsSince_def listIssueComments_def Let_def split: option.splits)

lemma removeLabel_ops:
  "operationsLeft (snd (removeLabel opts e i l s)) = operationsLeft s - 1"
  by (simp add: removeLabel_def Let_def)

lemma closeIssue_ops:
  "operationsLeft (snd (closeIssue opts e i s)) = operationsLeft s - 1"
  by (simp add: closeIssue_def Let_def)

lemma markStale_ops:
  "operationsLeft (snd (snd (markStale opts e i m l s))) = operationsLeft s - 2"
  by (simp add: markStale_def newDate_def Let_def)

lemma processStaleIssue_ops:
  "operationsLeft (snd (processStaleIssue opts e i t l s)) \<le> operationsLeft s - 1"
proof -
  obtain r1 s1 where g: "getLabelCreationDate e i l s = (r1, s1)" by (cases "getLabelCreationDate e i l s")
  then have o1: "operationsLeft s1 = operationsLeft s - 1"
    using getLabelCreationDate_ops [of e i l s] by simp
  show ?thesis
  proof (cases r1)
    case (Inl err)
    then show ?thesis using g o1 by (simp add: processStaleIssue_def)
  next
    case (Inr created)
    define m where "m = (case created of None \<Rightarrow> updated_at i | Some d \<Rightarrow> if d = [] then updated_at i else d)"
    obtain r2 s2 where h: "hasCommentsSince e i m s1 = (r2, s2)" by (cases "hasCommentsSince e i m s1")
    then have o2: "operationsLeft s2 = operationsLeft s1"
      using hasCommentsSince_ops [of e i m s1] by simp
    show ?thesis
    proof (cases r2)
      case (Inl err)
      then show ?thesis using g Inr h o1 o2 by (simp add: processStaleIssue_def m_def)
    next
      case (Inr hc)
      obtain hu s3 where u: "updatedSince e (updated_at i) (daysBeforeClose opts + daysBeforeStale opts) s2 = (hu, s3)"
        by (cases "updatedSince e (updated_at i) (daysBeforeClose opts + daysBeforeStale opts) s2")
      then have o3: "operationsLeft s3 = operationsLeft s2"
        using updatedSince_snd [of e "updated_at i" "daysBeforeClose opts + daysBeforeStale opts" s2] by simp
      have rl: "operationsLeft (snd (removeLabel opts e i l s3)) = operationsLeft s3 - 1"
        by (rule removeLabel_ops)
      have cl: "\<And>s4. operationsLeft (snd (closeIssue opts e i s4)) = operationsLeft s4 - 1"
        by (rule closeIssue_ops)
      show ?thesis using g \<open>r1 = Inr created\<close> h Inr u o1 o2 o3 rl cl
        by (auto simp add: processStaleIssue_def m_def split: prod.splits sum.splits)
    qed
  qed
qed



lemma processIssue_ops:
  "operationsLeft (snd (processIssue opts e i s)) \<le> operationsLeft s"
proof -
  obtain up s1 where u: "updatedSince e (updated_at i) (daysBeforeStale opts) s = (up, s1)"
    by (cases "updatedSince e (updated_at i) (daysBeforeStale opts) s")
  then have o1: "operationsLeft s1 = operationsLeft s"
    using updatedSince_snd [of e "updated_at i" "daysBeforeStale opts" s] by simp
  have p: "operationsLeft (snd (processStaleIssue opts e i t l s1)) \<le> operationsLeft s" for t l
    using processStaleIssue_ops [of opts e i t l s1] o1 by simp
  have mp: "operationsLeft (snd (case markStale opts e i m l s1 of
                       (Inl err, issue1, s2) \<Rightarrow> (Inl err, s2)
                     | (Inr u, issue1, s2) \<Rightarrow> processStaleIssue opts e issue1 t l s2)) \<le> operationsLeft s" for m l t
  proof -
    obtain r i1 s2 where ms: "markStale opts e i m l s1 = (r, i1, s2)"
      by (cases "markStale opts e i m l s1")
    then have o2: "operationsLeft s2 = operationsLeft s - 2"
      using markStale_ops [of opts e i m l s1] o1 by simp
    show ?thesis
    proof (cases r)
      case (Inl err)
      then show ?thesis using ms o2 by simp
    next
      case (Inr v)
      then show ?thesis using ms o2 processStaleIssue_ops [of opts e i1 t l s2] by simp
    qed
  qed
  show ?thesis
    unfolding processIssue_def Let_def u prod.case
    using mp p o1 by simp
qed

lemma forIssues_ops:
  "operationsLeft (snd (forIssues opts e is s)) \<le> operationsLeft s"
proof (induction "is" arbitrary: s)
  case Nil
  then show ?case by simp
next
  case (Cons i "is")
  obtain r s1 where p: "processIssue opts e i s = (r, s1)" by (cases "processIssue opts e i s")
  then have "operationsLeft s1 \<le> operationsLeft s" using processIssue_ops [of opts e i s] by simp
  then show ?case using p Cons.IH [of s1] by (cases r) auto
qed


lemma getIssues_snd: "snd (getIssues opts e page s) = request (ListForRepo (onlyLabels opts) 100 page) s"
  by (simp add: getIssues_def Let_def split: option.splits)

text \<open>
  \<open>processIssues\<close> calls itself for the next page. The measure is the budget left: the
  recursive call is reached only with a positive budget, one unit at least below the budget
  the call started with.
\<close>

function processIssues :: "IssueProcessorOptions \<Rightarrow> env \<Rightarrow> int \<Rightarrow> IssueProcessor
    \<Rightarrow> (error + int) \<times> IssueProcessor" where
  "processIssues opts e page s =
     (case getIssues opts e page s of
        (Inl err, s0) \<Rightarrow> (Inl err, s0)
      | (Inr issues, s0) \<Rightarrow>
          (let s1 = spend 1 s0
           in if length issues \<le> 0 then (Inr (operationsLeft s1), s1)
              else (case forIssues opts e issues s1 of
                      (Inl err, s2) \<Rightarrow> (Inl err, s2)
                    | (Inr u, s2) \<Rightarrow>
                        if operationsLeft s2 \<le> 0 then (Inr 0, s2)
                        else processIssues opts e (page + 1) s2)))"
  by pat_completeness auto
termination
proof (relation "measure (\<lambda>(opts, e, page, s). nat (operationsLeft s))")
  show "wf (measure (\<lambda>(opts, e, page, s). nat (operationsLeft s)))" by simp
next
  fix opts e page s x issues s0 s1 r s2 u
  assume g: "(x, s0) = getIssues opts e page s"
    and s1: "s1 = spend 1 s0"
    and f: "(r, s2) = forIssues opts e issues s1"
    and pos: "\<not> operationsLeft s2 \<le> 0"
  have "operationsLeft s0 = operationsLeft s"
    using getIssues_snd [of opts e page s] g [symmetric] by simp
  moreover have "operationsLeft s2 \<le> operationsLeft s1"
    using forIssues_ops [of opts e issues s1] f [symmetric] by simp
  ultimately show "((opts, e, page + 1, s2), opts, e, page, s)
      \<in> measure (\<lambda>(opts, e, page, s). nat (operationsLeft s))"
    using s1 pos by simp
qed

text \<open>A run: \<open>new IssueProcessor(options).processIssues()\<close>, the page defaulting to 1.\<close>

definition run :: "IssueProcessorOptions \<Rightarrow> env \<Rightarrow> (error + int) \<times> IssueProcessor" where
  "run opts e = processIssues opts e 1 (newProcessor opts)"

section \<open>Names used in the statements\<close>

text \<open>
  \<open>markedStaleOn\<close> is the constant of that name in \<open>processStaleIssue\<close>, as a function of
  the fetched history: the date of the last \<open>labeled\<close> event naming the label, or the
  issue's \<open>updated_at\<close> when there is none or its date is the empty string.
\<close>

definition markedStaleOn :: "Issue \<Rightarrow> string \<Rightarrow> IssueEvent list \<Rightarrow> string" where
  "markedStaleOn issue lbl events =
     (case find (\<lambda>ev. event ev = ''labeled'' \<and> name (label ev) = lbl) (rev events) of
        None \<Rightarrow> updated_at issue
      | Some ev \<Rightarrow> if created_at ev = [] then updated_at issue else created_at ev)"

text \<open>
  The constants the loop body selects for the type of the item, and its four \<open>continue\<close>
  conditions.
\<close>

definition staleMessageFor :: "IssueProcessorOptions \<Rightarrow> Issue \<Rightarrow> string" where
  "staleMessageFor opts issue =
     (if pull_request issue then stalePrMessage opts else staleIssueMessage opts)"

definition staleLabelFor :: "IssueProcessorOptions \<Rightarrow> Issue \<Rightarrow> string" where
  "staleLabelFor opts issue =
     (if pull_request issue then stalePrLabel opts else staleIssueLabel opts)"

definition exemptLabelsFor :: "IssueProcessorOptions \<Rightarrow> Issue \<Rightarrow> string list" where
  "exemptLabelsFor opts issue =
     parseCommaSeparatedString
       (if pull_request issue then exemptPrLabels opts else exemptIssueLabels opts)"

definition issueTypeFor :: "Issue \<Rightarrow> string" where
  "issueTypeFor issue = (if pull_request issue then ''pr'' else ''issue'')"

definition skips :: "IssueProcessorOptions \<Rightarrow> env \<Rightarrow> Issue \<Rightarrow> bool" where
  "skips opts e issue =
     (staleMessageFor opts issue = [] \<or> state issue = ''closed'' \<or> locked issue
      \<or> list_ex (\<lambda>exemptLabel. isLabeled e issue exemptLabel) (exemptLabelsFor opts issue))"

text \<open>
  The two requests of a stale transition.
\<close>

fun isStaleMark :: "call \<Rightarrow> bool" where
  "isStaleMark (CreateComment n b) = True"
| "isStaleMark (AddLabels n ls) = True"
| "isStaleMark c = False"

text \<open>
  \<open>erase\<close> drops the writes from the log of a processor, \<open>dryRun\<close> switches \<open>debugOnly\<close>
  on, and \<open>writesSucceed\<close> says that the client accepts every write.
\<close>

definition erase :: "IssueProcessor \<Rightarrow> IssueProcessor" where
  "erase s = s\<lparr>calls := filter (\<lambda>c. \<not> isMutation c) (calls s)\<rparr>"

definition dryRun :: "IssueProcessorOptions \<Rightarrow> IssueProcessorOptions" where
  "dryRun opts = opts\<lparr>debugOnly := True\<rparr>"


text \<open>
  Following the spec's words, "case-insensitive, accent-insensitive name equality": two
  names are equal when their letters have the same base letters, whatever their case and
  their diacritics (the comparison \<open>{sensitivity: 'base'}\<close> would make). \<open>foldCase\<close> maps
  the capital letters of ISO-8859-1 to their small letters, \<open>latin1Base\<close> the small
  letters that carry a diacritic to their base letters.
\<close>

definition foldCase :: "char \<Rightarrow> nat" where
  "foldCase c =
     (let n = of_char c :: nat
      in if (65 \<le> n \<and> n \<le> 90) \<or> (192 \<le> n \<and> n \<le> 222 \<and> n \<noteq> 215)
         then n + 32 else n)"

definition latin1Base :: "(nat \<times> nat) list" where
  "latin1Base =
     [(224, 97), (225, 97), (226, 97), (227, 97), (228, 97), (229, 97), (231, 99),
      (232, 101), (233, 101), (234, 101), (235, 101),
      (236, 105), (237, 105), (238, 105), (239, 105), (241, 110),
      (242, 111), (243, 111), (244, 111), (245, 111), (246, 111),
      (249, 117), (250, 117), (251, 117), (252, 117), (253, 121), (255, 121)]"

definition baseLetter :: "char \<Rightarrow> nat" where
  "baseLetter c = (case map_of latin1Base (foldCase c) of None \<Rightarrow> foldCase c | Some b \<Rightarrow> b)"

definition baseEquals :: "string \<Rightarrow> string \<Rightarrow> bool" where
  "baseEquals a b = (map baseLetter a = map baseLetter b)"

section \<open>A stand-in host for the closed examples\<close>

text \<open>
  The closed examples below run the processor against a concrete host. Its dates are
  printed as their whole seconds in decimal (\<open>Date.prototype.toString\<close> prints no
  milliseconds) and read back from that. Its comparison of label names stands for
  \<open>localeCompare\<close> with \<open>{sensitivity: 'accent'}\<close> on the letters of ISO-8859-1: strings
  that differ in base letters or in accents compare as unequal, strings that differ in
  case only compare as equal. It agrees with the host's comparison on the names the
  examples use and is not a model of it on all strings: the host's comparison also
  equates compatibility variants (the ordinal indicator U+00AA and \<open>a\<close>, sharp s and
  \<open>ss\<close>), ignores some characters, and follows the tailoring of the default locale (in
  a Turkish locale \<open>I\<close> and \<open>i\<close> are different letters). No statement about every host
  rests on it. Its \<open>encodeURIComponent\<close> is right on the unreserved
  characters, the only ones the examples use. Its clock starts at 1600000000123 ms and
  moves by a millisecond with every read.
\<close>

fun toDigits :: "nat \<Rightarrow> string" where
  "toDigits n = (if n < 10 then [''0123456789'' ! n]
                 else toDigits (n div 10) @ [''0123456789'' ! (n mod 10)])"

definition digitValue :: "char \<Rightarrow> nat" where
  "digitValue c = length (takeWhile (\<lambda>d. d \<noteq> c) ''0123456789'')"

definition fromDigits :: "string \<Rightarrow> nat option" where
  "fromDigits ds =
     (if ds = [] \<or> list_ex (\<lambda>c. digitValue c = 10) ds then None
      else Some (foldl (\<lambda>acc c. 10 * acc + digitValue c) 0 ds))"

definition hostDateToString :: "int \<Rightarrow> string" where
  "hostDateToString t = toDigits (nat (t div 1000))"

definition hostParseDate :: "string \<Rightarrow> int option" where
  "hostParseDate ds = (case fromDigits ds of None \<Rightarrow> None | Some n \<Rightarrow> Some (1000 * int n))"

definition accentEquals :: "string \<Rightarrow> string \<Rightarrow> bool" where
  "accentEquals a b = (map foldCase a = map foldCase b)"

definition testEnv :: env where
  "testEnv =
     \<lparr>issues_listForRepo = (\<lambda>l n p. Some []),
      issues_listComments = (\<lambda>i d. Some []),
      issues_listEvents = (\<lambda>n i. Some []),
      issues_createComment = (\<lambda>i b. True),
      issues_addLabels = (\<lambda>i ls. True),
      issues_update = (\<lambda>i st. True),
      issues_removeLabel = (\<lambda>i l. True),
      actor = ''github-actions'',
      clock = (\<lambda>k. 1600000000123 + int k),
      parseDate = hostParseDate,
      dateToString = hostDateToString,
      encodeURIComponent = (\<lambda>l. l),
      localeEquals = accentEquals\<rparr>"

text \<open>
  The options, items, events and comments of the examples. \<open>testPages\<close> is a repository of
  two items, one last updated 100 days ago and one 11 days ago; \<open>staleLabelledPage\<close> one of
  a single item that carries the stale label.
\<close>

definition testOptions :: IssueProcessorOptions where
  "testOptions =
     \<lparr>repoToken = ''token'',
      staleIssueMessage = ''This issue is stale'',
      stalePrMessage = ''This PR is stale'',
      daysBeforeStale = 60,
      daysBeforeClose = 7,
      staleIssueLabel = ''Stale'',
      exemptIssueLabels = ''pinned, cafe'',
      stalePrLabel = ''Stale'',
      exemptPrLabels = [],
      onlyLabels = [],
      operationsPerRun = 30,
      removeStaleWhenUpdated = False,
      debugOnly = False\<rparr>"

definition testIssue :: "int \<Rightarrow> string \<Rightarrow> string list \<Rightarrow> Issue" where
  "testIssue n updated ls =
     \<lparr>title = ''An issue'', number = n, updated_at = updated,
      labels = map (\<lambda>l. \<lparr>name = l\<rparr>) ls,
      pull_request = False, state = ''open'', locked = False\<rparr>"

definition labeledEvent :: "string \<Rightarrow> string \<Rightarrow> IssueEvent" where
  "labeledEvent at l = \<lparr>created_at = at, event = ''labeled'', label = \<lparr>name = l\<rparr>\<rparr>"

definition testEvents :: "IssueEvent list" where
  "testEvents =
     [labeledEvent ''1599000000'' ''stale'',
      labeledEvent ''1599500000'' ''stale'',
      labeledEvent ''1599700000'' ''Stale'',
      \<lparr>created_at = ''1599900000'', event = ''unlabeled'', label = \<lparr>name = ''stale''\<rparr>\<rparr>]"

definition testComments :: "Comment list" where
  "testComments =
     [\<lparr>user = \<lparr>type = ''User'', login = ''github-actions''\<rparr>\<rparr>,
      \<lparr>user = \<lparr>type = ''Bot'', login = ''dependabot''\<rparr>\<rparr>]"


definition staleLabelledPage :: "string \<Rightarrow> int \<Rightarrow> int \<Rightarrow> Issue list option" where
  "staleLabelledPage l n p =
     (if p = 1 then Some [testIssue 7 ''1599000000'' [''Stale'']] else Some [])"

section \<open>Unfolding the definitions in the examples\<close>

lemmas processor_defs =
  processIssue_def processStaleIssue_def markStale_def closeIssue_def removeLabel_def
  getLabelCreationDate_def hasCommentsSince_def listIssueComments_def getIssues_def
  updatedSince_def newDate_def isLabeled_def parseCommaSeparatedString_def trim_def
  isWhiteSpace_def request_def spend_def newProcessor_def

lemmas host_defs =
  testEnv_def testOptions_def testIssue_def hostDateToString_def hostParseDate_def
  fromDigits_def digitValue_def accentEquals_def foldCase_def

lemmas selection_defs =
  skips_def staleMessageFor_def staleLabelFor_def exemptLabelsFor_def issueTypeFor_def

section \<open>The last match of a list\<close>

text \<open>
  \<open>events.reverse().find(p)\<close> is the last element of \<open>events\<close> that satisfies \<open>p\<close>.
\<close>

lemma find_rev_Some_iff:
  "find P (rev xs) = Some x \<longleftrightarrow>
     (\<exists>i<length xs. xs ! i = x \<and> P x \<and> (\<forall>j<length xs. i < j \<longrightarrow> \<not> P (xs ! j)))"
proof (induction xs rule: rev_induct)
  case Nil
  then show ?case by simp
next
  case (snoc y ys)
  show ?case
  proof (cases "P y")
    case True
    have "(\<exists>i<length (ys @ [y]). (ys @ [y]) ! i = x \<and> P x \<and>
            (\<forall>j<length (ys @ [y]). i < j \<longrightarrow> \<not> P ((ys @ [y]) ! j))) \<longleftrightarrow> y = x"
    proof
      assume "\<exists>i<length (ys @ [y]). (ys @ [y]) ! i = x \<and> P x \<and>
            (\<forall>j<length (ys @ [y]). i < j \<longrightarrow> \<not> P ((ys @ [y]) ! j))"
      then obtain i where i: "i < length (ys @ [y])" "(ys @ [y]) ! i = x"
        and later: "\<forall>j<length (ys @ [y]). i < j \<longrightarrow> \<not> P ((ys @ [y]) ! j)" by blast
      have "\<not> i < length ys"
      proof
        assume "i < length ys"
        moreover have "length ys < length (ys @ [y])" by simp
        ultimately have "\<not> P ((ys @ [y]) ! length ys)" using later by blast
        then show False using True by simp
      qed
      then have "i = length ys" using i(1) by simp
      then show "y = x" using i(2) by simp
    next
      assume "y = x"
      then have "length ys < length (ys @ [y]) \<and> (ys @ [y]) ! length ys = x \<and> P x \<and>
            (\<forall>j<length (ys @ [y]). length ys < j \<longrightarrow> \<not> P ((ys @ [y]) ! j))"
        using True by simp
      then show "\<exists>i<length (ys @ [y]). (ys @ [y]) ! i = x \<and> P x \<and>
            (\<forall>j<length (ys @ [y]). i < j \<longrightarrow> \<not> P ((ys @ [y]) ! j))" by blast
    qed
    then show ?thesis using True by simp
  next
    case False
    have "(\<exists>i<length (ys @ [y]). (ys @ [y]) ! i = x \<and> P x \<and>
            (\<forall>j<length (ys @ [y]). i < j \<longrightarrow> \<not> P ((ys @ [y]) ! j))) \<longleftrightarrow>
          (\<exists>i<length ys. ys ! i = x \<and> P x \<and> (\<forall>j<length ys. i < j \<longrightarrow> \<not> P (ys ! j)))"
      (is "?L \<longleftrightarrow> ?R")
    proof
      assume ?L
      then obtain i where i: "i < length (ys @ [y])" "(ys @ [y]) ! i = x" "P x"
        and later: "\<forall>j<length (ys @ [y]). i < j \<longrightarrow> \<not> P ((ys @ [y]) ! j)" by blast
      have il: "i < length ys"
      proof (rule ccontr)
        assume "\<not> i < length ys"
        then have "i = length ys" using i(1) by simp
        then have "x = y" using i(2) by simp
        then show False using False i(3) by simp
      qed
      moreover have "ys ! i = x" using i(2) il by (simp add: nth_append)
      moreover have "\<forall>j<length ys. i < j \<longrightarrow> \<not> P (ys ! j)"
      proof (intro allI impI)
        fix j assume j: "j < length ys" "i < j"
        then have "\<not> P ((ys @ [y]) ! j)" using later by simp
        then show "\<not> P (ys ! j)" using j(1) by (simp add: nth_append)
      qed
      ultimately show ?R using i(3) by blast
    next
      assume ?R
      then obtain i where i: "i < length ys" "ys ! i = x" "P x"
        and later: "\<forall>j<length ys. i < j \<longrightarrow> \<not> P (ys ! j)" by blast
      have "\<forall>j<length (ys @ [y]). i < j \<longrightarrow> \<not> P ((ys @ [y]) ! j)"
      proof (intro allI impI)
        fix j assume j: "j < length (ys @ [y])" "i < j"
        show "\<not> P ((ys @ [y]) ! j)"
        proof (cases "j < length ys")
          case True
          then show ?thesis using later j(2) by (simp add: nth_append)
        next
          case nl: False
          then have "j = length ys" using j(1) by simp
          then show ?thesis using False by simp
        qed
      qed
      moreover have "i < length (ys @ [y])" "(ys @ [y]) ! i = x"
        using i by (simp_all add: nth_append)
      ultimately show ?L using i(3) by blast
    qed
    then show ?thesis using False snoc.IH by simp
  qed
qed

lemma find_rev_None_iff: "find P (rev xs) = None \<longleftrightarrow> \<not> (\<exists>x\<in>set xs. P x)"
  by (auto simp add: find_None_iff)

section \<open>The date a label was applied\<close>

text \<open>
  C10: when the event history is fetched, \<open>getLabelCreationDate\<close> returns the \<open>created_at\<close>
  of the last event of the history whose kind is \<open>labeled\<close> and whose label name is the
  searched name, by exact string equality, and \<open>undefined\<close> when the history has no such
  event. The history comes oldest first, so the last such event is the most recent one:
  under any reading \<open>tm\<close> of the dates that the history is ordered by, no event that
  matches is later than the one returned.
\<close>

theorem getLabelCreationDate_most_recent:
  assumes ok: "issues_listEvents e 100 (number issue) = Some events"
  shows "(fst (getLabelCreationDate e issue lbl s) = Inr (Some d) \<longleftrightarrow>
            (\<exists>i<length events. event (events ! i) = ''labeled'' \<and> name (label (events ! i)) = lbl
                \<and> created_at (events ! i) = d
                \<and> (\<forall>j<length events. i < j \<longrightarrow>
                      \<not> (event (events ! j) = ''labeled'' \<and> name (label (events ! j)) = lbl))))
       \<and> (fst (getLabelCreationDate e issue lbl s) = Inr None \<longleftrightarrow>
            (\<forall>ev\<in>set events. \<not> (event ev = ''labeled'' \<and> name (label ev) = lbl)))
       \<and> (sorted_wrt (\<lambda>a b. tm (created_at a) \<le> (tm (created_at b) :: int)) events
            \<and> fst (getLabelCreationDate e issue lbl s) = Inr (Some d) \<longrightarrow>
            (\<forall>ev\<in>set events. event ev = ''labeled'' \<and> name (label ev) = lbl
                \<longrightarrow> tm (created_at ev) \<le> tm d))"
proof -
  let ?P = "\<lambda>ev. event ev = ''labeled'' \<and> name (label ev) = lbl"
  have res: "fst (getLabelCreationDate e issue lbl s) =
      Inr (case find ?P (rev events) of None \<Rightarrow> None | Some ev \<Rightarrow> Some (created_at ev))"
    using ok by (simp add: getLabelCreationDate_def Let_def split: option.splits)
  have some: "fst (getLabelCreationDate e issue lbl s) = Inr (Some d) \<longleftrightarrow>
      (\<exists>i<length events. ?P (events ! i) \<and> created_at (events ! i) = d
          \<and> (\<forall>j<length events. i < j \<longrightarrow> \<not> ?P (events ! j)))" for d
  proof -
    have "fst (getLabelCreationDate e issue lbl s) = Inr (Some d) \<longleftrightarrow>
        (\<exists>ev. find ?P (rev events) = Some ev \<and> created_at ev = d)"
      unfolding res by (auto split: option.splits)
    also have "\<dots> \<longleftrightarrow> (\<exists>i<length events. ?P (events ! i) \<and> created_at (events ! i) = d
          \<and> (\<forall>j<length events. i < j \<longrightarrow> \<not> ?P (events ! j)))"
      unfolding find_rev_Some_iff by (rule iffI; clarify; blast)
    finally show ?thesis .
  qed
  have none: "fst (getLabelCreationDate e issue lbl s) = Inr None \<longleftrightarrow> (\<forall>ev\<in>set events. \<not> ?P ev)"
    unfolding res using find_rev_None_iff [of ?P events] by (auto split: option.splits)
  have recent: "\<forall>ev\<in>set events. ?P ev \<longrightarrow> tm (created_at ev) \<le> tm d"
    if srt: "sorted_wrt (\<lambda>a b. tm (created_at a) \<le> (tm (created_at b) :: int)) events"
      and r: "fst (getLabelCreationDate e issue lbl s) = Inr (Some d)"
  proof (intro ballI impI)
    fix ev assume ev: "ev \<in> set events" "?P ev"
    from r obtain i where i: "i < length events" "created_at (events ! i) = d"
      and later: "\<forall>j<length events. i < j \<longrightarrow> \<not> ?P (events ! j)"
      unfolding some by blast
    from ev(1) obtain k where k: "k < length events" "events ! k = ev"
      by (auto simp: in_set_conv_nth)
    have "\<not> i < k" using later k ev(2) by blast
    then consider "k = i" | "k < i" by linarith
    then show "tm (created_at ev) \<le> tm d"
    proof cases
      case 1
      then show ?thesis using k i by simp
    next
      case 2
      then have "tm (created_at (events ! k)) \<le> tm (created_at (events ! i))"
        using srt i(1) by (simp add: sorted_wrt_iff_nth_less)
      then show ?thesis using k i by simp
    qed
  qed
  show ?thesis using some [of d] none recent by blast
qed

theorem getLabelCreationDate_most_recent_witness:
  "issues_listEvents (testEnv\<lparr>issues_listEvents := (\<lambda>n i. Some testEvents)\<rparr>) 100
       (number (testIssue 1 ''1591360000'' [''stale''])) = Some testEvents
   \<and> fst (getLabelCreationDate (testEnv\<lparr>issues_listEvents := (\<lambda>n i. Some testEvents)\<rparr>)
             (testIssue 1 ''1591360000'' [''stale'']) ''stale'' (newProcessor testOptions))
       = Inr (Some ''1599500000'')
   \<and> (\<exists>i<length testEvents. created_at (testEvents ! i) = ''1599500000''
         \<and> (\<forall>j<length testEvents. i < j \<longrightarrow>
               \<not> (event (testEvents ! j) = ''labeled'' \<and> name (label (testEvents ! j)) = ''stale'')))"
proof -
  let ?e = "testEnv\<lparr>issues_listEvents := (\<lambda>n i. Some testEvents)\<rparr>"
  let ?i = "testIssue 1 ''1591360000'' [''stale'']"
  have h: "issues_listEvents ?e 100 (number ?i) = Some testEvents" by simp
  have r: "fst (getLabelCreationDate ?e ?i ''stale'' (newProcessor testOptions))
             = Inr (Some ''1599500000'')"
    by (simp add: getLabelCreationDate_def Let_def testEvents_def labeledEvent_def)
  from getLabelCreationDate_most_recent [OF h, of "''stale''" "newProcessor testOptions" "''1599500000''"] r
  have "\<exists>i<length testEvents. event (testEvents ! i) = ''labeled'' \<and> name (label (testEvents ! i)) = ''stale''
                \<and> created_at (testEvents ! i) = ''1599500000''
                \<and> (\<forall>j<length testEvents. i < j \<longrightarrow>
                      \<not> (event (testEvents ! j) = ''labeled'' \<and> name (label (testEvents ! j)) = ''stale''))"
    by blast
  then have "\<exists>i<length testEvents. created_at (testEvents ! i) = ''1599500000''
         \<and> (\<forall>j<length testEvents. i < j \<longrightarrow>
               \<not> (event (testEvents ! j) = ''labeled'' \<and> name (label (testEvents ! j)) = ''stale''))"
    by blast
  then show ?thesis using h r by blast
qed

section \<open>Label membership\<close>





section \<open>Items the engine skips\<close>

text \<open>
  C7, as amended: an item whose stale message is empty, or that is closed, or locked, or
  that carries an exempt label under the label match of the code, leaves the processor as
  it was: no request, no list entry, the same budget.
\<close>

theorem processIssue_skip:
  assumes "(if pull_request issue then stalePrMessage opts else staleIssueMessage opts) = []
      \<or> state issue = ''closed''
      \<or> locked issue
      \<or> (\<exists>exemptLabel\<in>set (parseCommaSeparatedString
             (if pull_request issue then exemptPrLabels opts else exemptIssueLabels opts)).
           isLabeled e issue exemptLabel)"
  shows "processIssue opts e issue s = (Inr (), s)"
  using assms by (auto simp add: processIssue_def Let_def list_ex_iff)

lemma parseCommaSeparatedString_example: "parseCommaSeparatedString ''pinned, cafe'' = [''pinned'', ''cafe'']"
  by (simp add: parseCommaSeparatedString_def trim_def isWhiteSpace_def)

text \<open>An item labelled \<open>Pinned\<close>, with \<open>pinned\<close> exempt, is skipped.\<close>

theorem processIssue_skip_witness:
  "(\<exists>exemptLabel\<in>set (parseCommaSeparatedString (exemptIssueLabels testOptions)).
       isLabeled testEnv (testIssue 1 ''1591360000'' [''bug'', ''Pinned'']) exemptLabel)
   \<and> processIssue testOptions testEnv (testIssue 1 ''1591360000'' [''bug'', ''Pinned''])
        (newProcessor testOptions) = (Inr (), newProcessor testOptions)"
proof -
  let ?i = "testIssue 1 ''1591360000'' [''bug'', ''Pinned'']"
  have ex: "\<exists>exemptLabel\<in>set (parseCommaSeparatedString (exemptIssueLabels testOptions)).
       isLabeled testEnv ?i exemptLabel"
    by (simp add: parseCommaSeparatedString_example testOptions_def isLabeled_def testEnv_def testIssue_def
        accentEquals_def foldCase_def)
  then have "(if pull_request ?i then stalePrMessage testOptions else staleIssueMessage testOptions) = []
      \<or> state ?i = ''closed'' \<or> locked ?i
      \<or> (\<exists>exemptLabel\<in>set (parseCommaSeparatedString
             (if pull_request ?i then exemptPrLabels testOptions else exemptIssueLabels testOptions)).
           isLabeled testEnv ?i exemptLabel)"
    by (simp add: testIssue_def)
  from processIssue_skip [OF this] ex show ?thesis by blast
qed

text \<open>
  C7, as stated, fails: with \<open>cafe\<close> exempt, an item labelled \<open>caf\<acute>e\<close> carries an exempt
  label under a case- and accent-insensitive match, and the engine marks it stale: two
  writes, three units of budget, one entry in \<open>staleIssues\<close>.
\<close>

theorem processIssue_skip_counterexample:
  "(\<exists>exemptLabel\<in>set (parseCommaSeparatedString (exemptIssueLabels testOptions)).
      \<exists>l\<in>set (labels (testIssue 1 ''1591360000'' [[CHR ''c'', CHR ''a'', CHR ''f'', CHR 0xE9]])).
        baseEquals exemptLabel (name l))
   \<and> calls (snd (processIssue testOptions testEnv
               (testIssue 1 ''1591360000'' [[CHR ''c'', CHR ''a'', CHR ''f'', CHR 0xE9]])
               (newProcessor testOptions)))
       = [CreateComment 1 ''This issue is stale'', AddLabels 1 [''Stale''],
          ListEvents 100 1, ListComments 1 ''1594816000'']
   \<and> operationsLeft (snd (processIssue testOptions testEnv
               (testIssue 1 ''1591360000'' [[CHR ''c'', CHR ''a'', CHR ''f'', CHR 0xE9]])
               (newProcessor testOptions))) = 27
   \<and> staleIssues (snd (processIssue testOptions testEnv
               (testIssue 1 ''1591360000'' [[CHR ''c'', CHR ''a'', CHR ''f'', CHR 0xE9]])
               (newProcessor testOptions)))
       = [testIssue 1 ''1594816000'' [[CHR ''c'', CHR ''a'', CHR ''f'', CHR 0xE9]]]"
proof -
  let ?i = "testIssue 1 ''1591360000'' [[CHR ''c'', CHR ''a'', CHR ''f'', CHR 0xE9]]"
  have a: "\<exists>exemptLabel\<in>set (parseCommaSeparatedString (exemptIssueLabels testOptions)).
      \<exists>l\<in>set (labels ?i). baseEquals exemptLabel (name l)"
    by (simp add: parseCommaSeparatedString_example testOptions_def testIssue_def baseEquals_def baseLetter_def
        latin1Base_def foldCase_def)
  have b: "processIssue testOptions testEnv ?i (newProcessor testOptions) =
      (Inr (), \<lparr>operationsLeft = 27,
         staleIssues = [testIssue 1 ''1594816000'' [[CHR ''c'', CHR ''a'', CHR ''f'', CHR 0xE9]]],
         closedIssues = [], removedLabelIssues = [],
         calls = [CreateComment 1 ''This issue is stale'', AddLabels 1 [''Stale''],
                  ListEvents 100 1, ListComments 1 ''1594816000''],
         dates = 3\<rparr>)"
    by (simp add: processor_defs host_defs Let_def)
  show ?thesis using a by (simp add: b)
qed

section \<open>What the methods do to the processor\<close>

lemma getLabelCreationDate_eq:
  "issues_listEvents e 100 (number issue) = Some events \<Longrightarrow>
   getLabelCreationDate e issue lbl s =
     (Inr (map_option created_at
             (find (\<lambda>ev. event ev = ''labeled'' \<and> name (label ev) = lbl) (rev events))),
      request (ListEvents 100 (number issue)) (spend 1 s))"
  by (simp add: getLabelCreationDate_def Let_def split: option.splits)

lemma hasCommentsSince_eq:
  "since \<noteq> [] \<Longrightarrow> issues_listComments e (number issue) since = Some comments \<Longrightarrow>
   hasCommentsSince e issue since s =
     (Inr (\<exists>c\<in>set comments. type (user c) = ''User'' \<and> login (user c) \<noteq> actor e),
      request (ListComments (number issue) since) s)"
  by (simp add: hasCommentsSince_def listIssueComments_def Let_def filter_empty_conv)

lemma hasCommentsSince_empty: "hasCommentsSince e issue [] s = (Inr True, s)"
  by (simp add: hasCommentsSince_def)

lemma updatedSince_eq:
  "updatedSince e ts d s =
     ((\<exists>t. parseDate e ts = Some t \<and> clock e (dates s) - t \<le> 86400000 * d),
      s\<lparr>dates := Suc (dates s)\<rparr>)"
  by (simp add: updatedSince_def newDate_def split: option.splits)

lemma processStaleIssue_eq:
  assumes ev: "issues_listEvents e 100 (number issue) = Some events"
    and cm: "markedStaleOn issue lbl events \<noteq> [] \<longrightarrow>
               issues_listComments e (number issue) (markedStaleOn issue lbl events) = Some comments"
  shows "processStaleIssue opts e issue t lbl s =
     (let since = markedStaleOn issue lbl events;
          hasComments = (since = []
             \<or> (\<exists>c\<in>set comments. type (user c) = ''User'' \<and> login (user c) \<noteq> actor e));
          hasUpdate = (\<exists>t. parseDate e (updated_at issue) = Some t
             \<and> clock e (dates s) - t \<le> 86400000 * (daysBeforeClose opts + daysBeforeStale opts));
          s1 = request (ListEvents 100 (number issue)) (spend 1 s);
          s2 = (if since = [] then s1 else request (ListComments (number issue) since) s1);
          s3 = s2\<lparr>dates := Suc (dates s)\<rparr>
      in if removeStaleWhenUpdated opts \<and> hasComments
         then removeLabel opts e issue lbl s3
         else if 0 \<le> daysBeforeClose opts \<and> \<not> hasComments \<and> \<not> hasUpdate
              then closeIssue opts e issue s3
              else (Inr (), s3))"
proof -
  let ?m = "markedStaleOn issue lbl events"
  have m: "(case map_option created_at
             (find (\<lambda>ev. event ev = ''labeled'' \<and> name (label ev) = lbl) (rev events)) of
                    None \<Rightarrow> updated_at issue
                  | Some d \<Rightarrow> if d = [] then updated_at issue else d) = ?m"
    by (simp add: markedStaleOn_def split: option.splits)
  show ?thesis
  proof (cases "?m = []")
    case True
    show ?thesis
      unfolding processStaleIssue_def getLabelCreationDate_eq [OF ev] prod.case sum.case m Let_def
        True hasCommentsSince_empty updatedSince_eq
      by (auto simp add: case_prod_beta prod_eq_iff split: sum.splits)
  next
    case False
    with cm have c: "issues_listComments e (number issue) ?m = Some comments" by simp
    show ?thesis
      unfolding processStaleIssue_def getLabelCreationDate_eq [OF ev] prod.case sum.case m Let_def
        hasCommentsSince_eq [OF False c] updatedSince_eq
      using False by (auto simp add: case_prod_beta prod_eq_iff split: sum.splits)
  qed
qed

lemma processStaleIssue_closes_iff_aux:
  assumes ev: "issues_listEvents e 100 (number issue) = Some events"
    and cm: "markedStaleOn issue lbl events \<noteq> [] \<longrightarrow>
               issues_listComments e (number issue) (markedStaleOn issue lbl events) = Some comments"
  shows "let since = markedStaleOn issue lbl events;
             hasComments = (since = []
                \<or> (\<exists>c\<in>set comments. type (user c) = ''User'' \<and> login (user c) \<noteq> actor e));
             hasUpdate = (\<exists>t. parseDate e (updated_at issue) = Some t
                \<and> clock e (dates s) - t
                    \<le> 86400000 * (daysBeforeClose opts + daysBeforeStale opts));
             closes = (0 \<le> daysBeforeClose opts \<and> \<not> hasComments \<and> \<not> hasUpdate);
             unstales = (removeStaleWhenUpdated opts \<and> hasComments);
             r = processStaleIssue opts e issue t lbl s
         in (closedIssues (snd r) = closedIssues s @ [issue]) = closes
          \<and> (closedIssues (snd r) = closedIssues s) = (\<not> closes)
          \<and> calls (snd r)
              = calls s @ [ListEvents 100 (number issue)]
                @ (if since = [] then [] else [ListComments (number issue) since])
                @ (if unstales \<and> \<not> debugOnly opts
                   then [RemoveLabel (number issue) (encodeURIComponent e lbl)] else [])
                @ (if closes \<and> \<not> debugOnly opts
                   then [Update (number issue) ''closed''] else [])
          \<and> operationsLeft (snd r)
              = operationsLeft s - 1 - (if unstales then 1 else 0) - (if closes then 1 else 0)
          \<and> (closes \<longrightarrow>
                fst r = (if debugOnly opts \<or> issues_update e (number issue) ''closed''
                         then Inr ()
                         else Inl (RequestError (Update (number issue) ''closed''))))"
  unfolding processStaleIssue_eq [OF ev cm] Let_def
  by (auto simp add: closeIssue_def removeLabel_def Let_def)

lemma getLabelCreationDate_snd:
  "snd (getLabelCreationDate e i l s) = request (ListEvents 100 (number i)) (spend 1 s)"
  by (simp add: getLabelCreationDate_def Let_def split: option.splits)

lemma hasCommentsSince_snd:
  "snd (hasCommentsSince e i d s) = (if d = [] then s else request (ListComments (number i) d) s)"
  by (simp add: hasCommentsSince_def listIssueComments_def Let_def split: option.splits)

lemma removeLabel_snd:
  "snd (removeLabel opts e i l s) =
     (if debugOnly opts then spend 1 (s\<lparr>removedLabelIssues := removedLabelIssues s @ [i]\<rparr>)
      else request (RemoveLabel (number i) (encodeURIComponent e l))
             (spend 1 (s\<lparr>removedLabelIssues := removedLabelIssues s @ [i]\<rparr>)))"
  by (simp add: removeLabel_def Let_def)

lemma closeIssue_snd:
  "snd (closeIssue opts e i s) =
     (if debugOnly opts then spend 1 (s\<lparr>closedIssues := closedIssues s @ [i]\<rparr>)
      else request (Update (number i) ''closed'')
             (spend 1 (s\<lparr>closedIssues := closedIssues s @ [i]\<rparr>)))"
  by (simp add: closeIssue_def Let_def)

lemma markStale_issue:
  "fst (snd (markStale opts e i m l s)) =
     i\<lparr>updated_at := dateToString e (clock e (dates s) - 86400000 * daysBeforeStale opts)\<rparr>"
  by (simp add: markStale_def newDate_def Let_def)

lemma markStale_snd:
  "snd (snd (markStale opts e i m l s)) =
     (let i1 = i\<lparr>updated_at := dateToString e (clock e (dates s) - 86400000 * daysBeforeStale opts)\<rparr>;
          s2 = (spend 2 s)\<lparr>dates := Suc (dates s), staleIssues := staleIssues s @ [i1]\<rparr>
      in if debugOnly opts then s2
         else if issues_createComment e (number i) m
              then request (AddLabels (number i) [l]) (request (CreateComment (number i) m) s2)
              else request (CreateComment (number i) m) s2)"
  by (simp add: markStale_def newDate_def Let_def spend_def request_def)

lemma processStaleIssue_staleIssues:
  "staleIssues (snd (processStaleIssue opts e i t l s)) = staleIssues s"
  unfolding processStaleIssue_def Let_def case_prod_beta
  by (simp add: getLabelCreationDate_snd hasCommentsSince_snd updatedSince_snd removeLabel_snd
      closeIssue_snd split: sum.splits)

lemma processStaleIssue_staleMarks:
  "filter isStaleMark (calls (snd (processStaleIssue opts e i t l s))) = filter isStaleMark (calls s)"
  unfolding processStaleIssue_def Let_def case_prod_beta
  by (simp add: getLabelCreationDate_snd hasCommentsSince_snd updatedSince_snd removeLabel_snd
      closeIssue_snd split: sum.splits)

section \<open>Idempotence of the stale mark\<close>

text \<open>
  C9: evaluating an item that already carries the stale label sends no stale comment and
  no label addition (the \<open>createComment\<close> and \<open>addLabels\<close> requests in the log are the
  ones that were there before) and records nothing in \<open>staleIssues\<close>: \<open>markStale\<close> is taken
  only for an item without the stale label.
\<close>

theorem processIssue_stale_label_not_reapplied:
  assumes "isLabeled e issue (if pull_request issue then stalePrLabel opts else staleIssueLabel opts)"
  shows "filter isStaleMark (calls (snd (processIssue opts e issue s))) = filter isStaleMark (calls s)
       \<and> staleIssues (snd (processIssue opts e issue s)) = staleIssues s"
proof (cases "pull_request issue")
  case True
  then have "isLabeled e issue (stalePrLabel opts)" using assms by simp
  then show ?thesis
    unfolding processIssue_def Let_def case_prod_beta using True
    by (simp add: processStaleIssue_staleMarks processStaleIssue_staleIssues updatedSince_snd)
next
  case False
  then have "isLabeled e issue (staleIssueLabel opts)" using assms by simp
  then show ?thesis
    unfolding processIssue_def Let_def case_prod_beta using False
    by (simp add: processStaleIssue_staleMarks processStaleIssue_staleIssues updatedSince_snd)
qed

lemma processIssue_unfold:
  "processIssue opts e issue s =
     (if skips opts e issue then (Inr (), s)
      else if \<not> isLabeled e issue (staleLabelFor opts issue)
              \<and> \<not> fst (updatedSince e (updated_at issue) (daysBeforeStale opts) s)
      then (case markStale opts e issue (staleMessageFor opts issue) (staleLabelFor opts issue)
                   (s\<lparr>dates := Suc (dates s)\<rparr>) of
              (Inl err, issue1, s2) \<Rightarrow> (Inl err, s2)
            | (Inr u, issue1, s2) \<Rightarrow>
                processStaleIssue opts e issue1 (issueTypeFor issue) (staleLabelFor opts issue) s2)
      else if isLabeled e issue (staleLabelFor opts issue)
      then processStaleIssue opts e issue (issueTypeFor issue) (staleLabelFor opts issue)
             (s\<lparr>dates := Suc (dates s)\<rparr>)
      else (Inr (), s\<lparr>dates := Suc (dates s)\<rparr>))"
  unfolding processIssue_def Let_def case_prod_beta skips_def staleMessageFor_def
    staleLabelFor_def exemptLabelsFor_def issueTypeFor_def updatedSince_snd
  by simp

lemma markStale_fst_debug: "debugOnly opts \<Longrightarrow> fst (markStale opts e i m l s) = Inr ()"
  by (simp add: markStale_def newDate_def Let_def case_prod_beta)

lemma markStale_fst_ok:
  "issues_createComment e (number i) m \<Longrightarrow> issues_addLabels e (number i) [l] \<Longrightarrow>
   fst (markStale opts e i m l s) = Inr ()"
  by (simp add: markStale_def newDate_def Let_def case_prod_beta)

lemma markStale_closedIssues:
  "closedIssues (snd (snd (markStale opts e i m l s))) = closedIssues s"
  by (simp add: markStale_snd Let_def)

lemma markStale_dates:
  "dates (snd (snd (markStale opts e i m l s))) = Suc (dates s)"
  by (simp add: markStale_snd Let_def)

lemma markStale_calls_ok:
  "fst (markStale opts e i m l s) = Inr () \<Longrightarrow>
   calls (snd (snd (markStale opts e i m l s)))
     = calls s @ (if debugOnly opts then []
                  else [CreateComment (number i) m, AddLabels (number i) [l]])"
  by (simp add: markStale_def newDate_def Let_def case_prod_beta split: if_splits)

text \<open>An item labelled \<open>stale\<close> is evaluated again: the two earlier requests stay the only ones.\<close>

theorem processIssue_stale_label_not_reapplied_witness:
  "isLabeled testEnv (testIssue 1 ''1591360000'' [''stale''])
       (if pull_request (testIssue 1 ''1591360000'' [''stale'']) then stalePrLabel testOptions
        else staleIssueLabel testOptions)
   \<and> filter isStaleMark (calls (snd (processIssue testOptions testEnv
         (testIssue 1 ''1591360000'' [''stale''])
         ((newProcessor testOptions)\<lparr>calls := [CreateComment 1 ''This issue is stale'',
                                               AddLabels 1 [''Stale'']]\<rparr>))))
       = [CreateComment 1 ''This issue is stale'', AddLabels 1 [''Stale'']]
   \<and> staleIssues (snd (processIssue testOptions testEnv (testIssue 1 ''1591360000'' [''stale''])
         ((newProcessor testOptions)\<lparr>calls := [CreateComment 1 ''This issue is stale'',
                                               AddLabels 1 [''Stale'']]\<rparr>))) = []"
proof -
  let ?i = "testIssue 1 ''1591360000'' [''stale'']"
  have a: "isLabeled testEnv ?i
       (if pull_request ?i then stalePrLabel testOptions else staleIssueLabel testOptions)"
    by (simp add: processor_defs host_defs)
  from processIssue_stale_label_not_reapplied [OF a]
  show ?thesis using a by (simp add: newProcessor_def)
qed

section \<open>The synthetic timestamp\<close>

text \<open>
  C3, as amended: for an item that is not skipped, does not carry the stale label and
  fails the recency check of \<open>daysBeforeStale\<close>, \<open>markStale\<close> rewrites \<open>updated_at\<close> to the
  string the host prints for the date \<open>T = now - daysBeforeStale * 86400000\<close> ms, \<open>now\<close>
  being the clock read in \<open>markStale\<close>, dry-run or not, and the item recorded in
  \<open>staleIssues\<close> carries it. Once \<open>markStale\<close> has returned (always under dry-run, and when
  its two writes succeed otherwise), the rest of the evaluation is \<open>processStaleIssue\<close> on
  the rewritten item, and when its reads are answered the item is closed in this pass
  exactly when \<open>daysBeforeClose \<ge> 0\<close>, no qualifying comment was made since
  \<open>markedStaleOn\<close> of the rewritten item, and the date read back from the synthetic string
  is not within \<open>daysBeforeClose + daysBeforeStale\<close> days of the clock; the requests of the
  pass are then the two writes of the stale mark, the two reads, and the label removal and
  the close request when they are due. On a host that prints dates to the second, the
  string reads back as at most \<open>T\<close> and less than a second before it.
\<close>

theorem processIssue_marks_stale_with_synthetic_date:
  assumes fresh: "\<not> skips opts e issue"
      "\<not> isLabeled e issue (staleLabelFor opts issue)"
      "\<not> fst (updatedSince e (updated_at issue) (daysBeforeStale opts) s)"
  shows "let T = clock e (Suc (dates s)) - 86400000 * daysBeforeStale opts;
             synthetic = issue\<lparr>updated_at := dateToString e T\<rparr>;
             marked = markStale opts e issue (staleMessageFor opts issue)
                        (staleLabelFor opts issue) (s\<lparr>dates := Suc (dates s)\<rparr>);
             since = markedStaleOn synthetic (staleLabelFor opts issue) events;
             hasComments = (since = []
                \<or> (\<exists>c\<in>set comments. type (user c) = ''User'' \<and> login (user c) \<noteq> actor e));
             hasUpdate = (\<exists>t. parseDate e (dateToString e T) = Some t
                \<and> clock e (Suc (Suc (dates s))) - t
                    \<le> 86400000 * (daysBeforeClose opts + daysBeforeStale opts));
             closes = (0 \<le> daysBeforeClose opts \<and> \<not> hasComments \<and> \<not> hasUpdate);
             unstales = (removeStaleWhenUpdated opts \<and> hasComments);
             final = snd (processIssue opts e issue s)
         in fst (snd marked) = synthetic
          \<and> staleIssues final = staleIssues s @ [synthetic]
          \<and> (debugOnly opts
               \<or> issues_createComment e (number issue) (staleMessageFor opts issue)
                   \<and> issues_addLabels e (number issue) [staleLabelFor opts issue]
              \<longrightarrow> fst marked = Inr ())
          \<and> (fst marked = Inr () \<longrightarrow>
                processIssue opts e issue s
                  = processStaleIssue opts e synthetic (issueTypeFor issue)
                      (staleLabelFor opts issue) (snd (snd marked)))
          \<and> (fst marked = Inr ()
               \<and> issues_listEvents e 100 (number issue) = Some events
               \<and> (since \<noteq> [] \<longrightarrow> issues_listComments e (number issue) since = Some comments)
              \<longrightarrow> (closedIssues final = closedIssues s @ [synthetic]) = closes
                  \<and> (closedIssues final = closedIssues s) = (\<not> closes)
                  \<and> calls final
                      = calls s
                        @ (if debugOnly opts then []
                           else [CreateComment (number issue) (staleMessageFor opts issue),
                                 AddLabels (number issue) [staleLabelFor opts issue]])
                        @ [ListEvents 100 (number issue)]
                        @ (if since = [] then [] else [ListComments (number issue) since])
                        @ (if unstales \<and> \<not> debugOnly opts
                           then [RemoveLabel (number issue)
                                   (encodeURIComponent e (staleLabelFor opts issue))] else [])
                        @ (if closes \<and> \<not> debugOnly opts
                           then [Update (number issue) ''closed''] else []))
          \<and> (parseDate e (dateToString e T) = Some (1000 * (T div 1000))
              \<longrightarrow> (\<exists>r. parseDate e (updated_at synthetic) = Some r \<and> r \<le> T \<and> T - r < 1000))"
proof -
  define T where "T = clock e (Suc (dates s)) - 86400000 * daysBeforeStale opts"
  define synthetic where "synthetic = issue\<lparr>updated_at := dateToString e T\<rparr>"
  define marked where "marked = markStale opts e issue (staleMessageFor opts issue)
                        (staleLabelFor opts issue) (s\<lparr>dates := Suc (dates s)\<rparr>)"
  define since where "since = markedStaleOn synthetic (staleLabelFor opts issue) events"
  define s2 where "s2 = snd (snd marked)"
  have p: "processIssue opts e issue s =
      (case marked of (Inl err, issue1, s2) \<Rightarrow> (Inl err, s2)
       | (Inr u, issue1, s2) \<Rightarrow>
           processStaleIssue opts e issue1 (issueTypeFor issue) (staleLabelFor opts issue) s2)"
    using fresh by (simp add: processIssue_unfold marked_def)
  have i1: "fst (snd marked) = synthetic"
    by (simp add: markStale_issue marked_def synthetic_def T_def)
  have st: "staleIssues s2 = staleIssues s @ [synthetic]"
    by (simp add: markStale_snd Let_def marked_def synthetic_def T_def s2_def)
  have a: "staleIssues (snd (processIssue opts e issue s)) = staleIssues s @ [synthetic]"
    unfolding p case_prod_beta using st
    by (cases "fst marked") (simp_all add: processStaleIssue_staleIssues s2_def)
  have c: "fst marked = Inr ()"
    if "debugOnly opts \<or> issues_createComment e (number issue) (staleMessageFor opts issue)
                \<and> issues_addLabels e (number issue) [staleLabelFor opts issue]"
    using that markStale_fst_debug markStale_fst_ok unfolding marked_def by blast
  have b: "processIssue opts e issue s
      = processStaleIssue opts e synthetic (issueTypeFor issue) (staleLabelFor opts issue) s2"
    if "fst marked = Inr ()"
    unfolding p case_prod_beta s2_def using that i1 by simp
  have d: "(closedIssues (snd (processIssue opts e issue s)) = closedIssues s @ [synthetic])
          = (0 \<le> daysBeforeClose opts
             \<and> \<not> (since = [] \<or> (\<exists>c\<in>set comments. type (user c) = ''User''
                                      \<and> login (user c) \<noteq> actor e))
             \<and> \<not> (\<exists>t. parseDate e (dateToString e T) = Some t
                       \<and> clock e (Suc (Suc (dates s))) - t
                           \<le> 86400000 * (daysBeforeClose opts + daysBeforeStale opts)))
        \<and> (closedIssues (snd (processIssue opts e issue s)) = closedIssues s)
          = (\<not> (0 \<le> daysBeforeClose opts
             \<and> \<not> (since = [] \<or> (\<exists>c\<in>set comments. type (user c) = ''User''
                                      \<and> login (user c) \<noteq> actor e))
             \<and> \<not> (\<exists>t. parseDate e (dateToString e T) = Some t
                       \<and> clock e (Suc (Suc (dates s))) - t
                           \<le> 86400000 * (daysBeforeClose opts + daysBeforeStale opts))))
        \<and> calls (snd (processIssue opts e issue s))
            = calls s
              @ (if debugOnly opts then []
                 else [CreateComment (number issue) (staleMessageFor opts issue),
                       AddLabels (number issue) [staleLabelFor opts issue]])
              @ [ListEvents 100 (number issue)]
              @ (if since = [] then [] else [ListComments (number issue) since])
              @ (if (removeStaleWhenUpdated opts
                      \<and> (since = [] \<or> (\<exists>c\<in>set comments. type (user c) = ''User''
                                      \<and> login (user c) \<noteq> actor e))) \<and> \<not> debugOnly opts
                 then [RemoveLabel (number issue)
                         (encodeURIComponent e (staleLabelFor opts issue))] else [])
              @ (if (0 \<le> daysBeforeClose opts
                     \<and> \<not> (since = [] \<or> (\<exists>c\<in>set comments. type (user c) = ''User''
                                      \<and> login (user c) \<noteq> actor e))
                     \<and> \<not> (\<exists>t. parseDate e (dateToString e T) = Some t
                       \<and> clock e (Suc (Suc (dates s))) - t
                           \<le> 86400000 * (daysBeforeClose opts + daysBeforeStale opts)))
                    \<and> \<not> debugOnly opts
                 then [Update (number issue) ''closed''] else [])"
    if ok: "fst marked = Inr ()"
      and ev: "issues_listEvents e 100 (number issue) = Some events"
      and cm: "since \<noteq> [] \<longrightarrow> issues_listComments e (number issue) since = Some comments"
  proof -
    have n: "number synthetic = number issue" "updated_at synthetic = dateToString e T"
      by (simp_all add: synthetic_def)
    have ev': "issues_listEvents e 100 (number synthetic) = Some events" using ev n by simp
    have cm': "markedStaleOn synthetic (staleLabelFor opts issue) events \<noteq> [] \<longrightarrow>
        issues_listComments e (number synthetic)
          (markedStaleOn synthetic (staleLabelFor opts issue) events) = Some comments"
      using cm n by (simp add: since_def)
    have s2: "closedIssues s2 = closedIssues s" "dates s2 = Suc (Suc (dates s))"
      "calls s2 = calls s @ (if debugOnly opts then []
                 else [CreateComment (number issue) (staleMessageFor opts issue),
                       AddLabels (number issue) [staleLabelFor opts issue]])"
      using markStale_calls_ok [OF ok [unfolded marked_def]]
      by (simp_all add: s2_def marked_def markStale_closedIssues markStale_dates)
    from processStaleIssue_closes_iff_aux [OF ev' cm', where opts = opts
        and t = "issueTypeFor issue" and s = s2]
    show ?thesis
      unfolding b [OF ok] Let_def s2 n since_def [symmetric] by simp
  qed
  have f: "\<exists>r. parseDate e (updated_at synthetic) = Some r \<and> r \<le> T \<and> T - r < 1000"
    if "parseDate e (dateToString e T) = Some (1000 * (T div 1000))"
  proof -
    have "1000 * (T div 1000) \<le> T" "T - 1000 * (T div 1000) < 1000"
      by (simp_all add: minus_mult_div_eq_mod)
    then show ?thesis using that by (simp add: synthetic_def)
  qed
  show ?thesis
    unfolding Let_def T_def [symmetric] synthetic_def [symmetric] marked_def [symmetric]
      since_def [symmetric]
    using i1 a b c d f unfolding s2_def by blast
qed

text \<open>
  With \<open>daysBeforeClose = 0\<close>, an item last updated 100 days ago is recorded with the date of
  60 days ago, to the second, and closed against it in the same pass.
\<close>

theorem processIssue_marks_stale_with_synthetic_date_witness:
  "\<not> skips (testOptions\<lparr>daysBeforeClose := 0\<rparr>) testEnv (testIssue 1 ''1591360000'' [''bug''])
   \<and> \<not> isLabeled testEnv (testIssue 1 ''1591360000'' [''bug''])
          (staleLabelFor (testOptions\<lparr>daysBeforeClose := 0\<rparr>) (testIssue 1 ''1591360000'' [''bug'']))
   \<and> \<not> fst (updatedSince testEnv (updated_at (testIssue 1 ''1591360000'' [''bug'']))
               (daysBeforeStale (testOptions\<lparr>daysBeforeClose := 0\<rparr>))
               (newProcessor (testOptions\<lparr>daysBeforeClose := 0\<rparr>)))
   \<and> issues_listEvents testEnv 100 (number (testIssue 1 ''1591360000'' [''bug''])) = Some []
   \<and> issues_listComments testEnv (number (testIssue 1 ''1591360000'' [''bug''])) ''1594816000''
        = Some []
   \<and> staleIssues (snd (processIssue (testOptions\<lparr>daysBeforeClose := 0\<rparr>) testEnv
                          (testIssue 1 ''1591360000'' [''bug''])
                          (newProcessor (testOptions\<lparr>daysBeforeClose := 0\<rparr>))))
       = [testIssue 1 ''1594816000'' [''bug'']]
   \<and> closedIssues (snd (processIssue (testOptions\<lparr>daysBeforeClose := 0\<rparr>) testEnv
                          (testIssue 1 ''1591360000'' [''bug''])
                          (newProcessor (testOptions\<lparr>daysBeforeClose := 0\<rparr>))))
       = [testIssue 1 ''1594816000'' [''bug'']]
   \<and> calls (snd (processIssue (testOptions\<lparr>daysBeforeClose := 0\<rparr>) testEnv
                          (testIssue 1 ''1591360000'' [''bug''])
                          (newProcessor (testOptions\<lparr>daysBeforeClose := 0\<rparr>))))
       = [CreateComment 1 ''This issue is stale'', AddLabels 1 [''Stale''],
          ListEvents 100 1, ListComments 1 ''1594816000'', Update 1 ''closed'']"
proof -
  let ?o = "testOptions\<lparr>daysBeforeClose := 0\<rparr>"
  let ?i = "testIssue 1 ''1591360000'' [''bug'']"
  let ?s = "newProcessor ?o"
  let ?T = "clock testEnv (Suc (dates ?s)) - 86400000 * daysBeforeStale ?o"
  let ?syn = "?i\<lparr>updated_at := dateToString testEnv ?T\<rparr>"
  let ?marked = "markStale ?o testEnv ?i (staleMessageFor ?o ?i) (staleLabelFor ?o ?i)
                   (?s\<lparr>dates := Suc (dates ?s)\<rparr>)"
  have a: "\<not> skips ?o testEnv ?i"
    by (simp add: selection_defs processor_defs host_defs)
  have b: "\<not> isLabeled testEnv ?i (staleLabelFor ?o ?i)"
    by (simp add: selection_defs processor_defs host_defs)
  have c: "\<not> fst (updatedSince testEnv (updated_at ?i) (daysBeforeStale ?o) ?s)"
    by (simp add: processor_defs host_defs)
  have ev: "issues_listEvents testEnv 100 (number ?i) = Some []" by (simp add: testEnv_def)
  have cm: "issues_listComments testEnv (number ?i) ''1594816000'' = Some []"
    by (simp add: testEnv_def)
  have syn: "?syn = testIssue 1 ''1594816000'' [''bug'']"
    by (simp add: processor_defs host_defs)
  have since: "markedStaleOn ?syn (staleLabelFor ?o ?i) [] = ''1594816000''"
    unfolding syn by (simp add: markedStaleOn_def testIssue_def)
  have ok: "fst ?marked = Inr ()"
    by (simp add: markStale_def newDate_def Let_def testEnv_def testOptions_def)
  have hu: "\<not> (\<exists>t. parseDate testEnv (dateToString testEnv ?T) = Some t
                \<and> clock testEnv (Suc (Suc (dates ?s))) - t
                    \<le> 86400000 * (daysBeforeClose ?o + daysBeforeStale ?o))"
    by (simp add: processor_defs host_defs)
  have o: "0 \<le> daysBeforeClose ?o" "\<not> debugOnly ?o" "number ?i = 1"
      "staleMessageFor ?o ?i = ''This issue is stale''" "staleLabelFor ?o ?i = ''Stale''"
      "staleIssues ?s = []" "closedIssues ?s = []" "calls ?s = []"
    by (simp_all add: selection_defs testOptions_def testIssue_def newProcessor_def)
  have g: "''1594816000'' \<noteq> [] \<longrightarrow>
      issues_listComments testEnv (number ?i) ''1594816000'' = Some []"
    using cm by simp
  have cl: "0 \<le> daysBeforeClose ?o
      \<and> \<not> (''1594816000'' = [] \<or> (\<exists>c\<in>set ([] :: Comment list). type (user c) = ''User''
                                      \<and> login (user c) \<noteq> actor testEnv))
      \<and> \<not> (\<exists>t. parseDate testEnv (dateToString testEnv ?T) = Some t
                \<and> clock testEnv (Suc (Suc (dates ?s))) - t
                    \<le> 86400000 * (daysBeforeClose ?o + daysBeforeStale ?o))"
    using hu o(1) by simp
  note t = processIssue_marks_stale_with_synthetic_date [OF a b c, where events = "[]"
      and comments = "[]", unfolded Let_def since]
  from t have st: "staleIssues (snd (processIssue ?o testEnv ?i ?s)) = staleIssues ?s @ [?syn]"
    by blast
  from t ok ev g cl
  have cd: "closedIssues (snd (processIssue ?o testEnv ?i ?s)) = closedIssues ?s @ [?syn]"
    by blast
  from t ok ev g
  have ca: "calls (snd (processIssue ?o testEnv ?i ?s))
      = calls ?s
        @ (if debugOnly ?o then []
           else [CreateComment (number ?i) (staleMessageFor ?o ?i),
                 AddLabels (number ?i) [staleLabelFor ?o ?i]])
        @ [ListEvents 100 (number ?i)]
        @ (if ''1594816000'' = [] then [] else [ListComments (number ?i) ''1594816000''])
        @ (if (removeStaleWhenUpdated ?o
                \<and> (''1594816000'' = [] \<or> (\<exists>c\<in>set ([] :: Comment list). type (user c) = ''User''
                                      \<and> login (user c) \<noteq> actor testEnv))) \<and> \<not> debugOnly ?o
           then [RemoveLabel (number ?i) (encodeURIComponent testEnv (staleLabelFor ?o ?i))]
           else [])
        @ (if (0 \<le> daysBeforeClose ?o
               \<and> \<not> (''1594816000'' = [] \<or> (\<exists>c\<in>set ([] :: Comment list). type (user c) = ''User''
                                      \<and> login (user c) \<noteq> actor testEnv))
               \<and> \<not> (\<exists>t. parseDate testEnv (dateToString testEnv ?T) = Some t
                    \<and> clock testEnv (Suc (Suc (dates ?s))) - t
                        \<le> 86400000 * (daysBeforeClose ?o + daysBeforeStale ?o)))
              \<and> \<not> debugOnly ?o
           then [Update (number ?i) ''closed''] else [])"
    by blast
  have "staleIssues (snd (processIssue ?o testEnv ?i ?s)) = [testIssue 1 ''1594816000'' [''bug'']]"
    unfolding st syn by (simp add: o)
  moreover have "closedIssues (snd (processIssue ?o testEnv ?i ?s))
      = [testIssue 1 ''1594816000'' [''bug'']]"
    unfolding cd syn by (simp add: o)
  moreover have "calls (snd (processIssue ?o testEnv ?i ?s))
          = [CreateComment 1 ''This issue is stale'', AddLabels 1 [''Stale''],
             ListEvents 100 1, ListComments 1 ''1594816000'', Update 1 ''closed'']"
    unfolding ca using cl by (simp add: o)
  ultimately show ?thesis using a b c ev cm by blast
qed

text \<open>
  C3, as stated, fails: the clock read in \<open>markStale\<close> is 1600000000124 ms and 60 days
  before it is 1594816000124 ms, but the timestamp the item carries afterwards is the
  printed date, without milliseconds, and reads back as 1594816000000 ms.
\<close>

theorem synthetic_date_not_exact_counterexample:
  "staleIssues (snd (processIssue testOptions testEnv (testIssue 1 ''1591360000'' [''bug''])
                       (newProcessor testOptions)))
     = [testIssue 1 ''1594816000'' [''bug'']]
   \<and> clock testEnv (Suc (dates (newProcessor testOptions)))
        - 86400000 * daysBeforeStale testOptions = 1594816000124
   \<and> parseDate testEnv ''1594816000'' = Some 1594816000000"
  by (simp add: processor_defs host_defs Let_def)

section \<open>Closing a stale item\<close>

text \<open>
  C4: when the event history and (for a non-empty \<open>markedStaleOn\<close>) the comments since it
  are fetched, \<open>processStaleIssue\<close> closes the item if and only if \<open>daysBeforeClose \<ge> 0\<close>,
  and \<open>hasComments\<close> is false, and \<open>hasUpdate\<close> is false; \<open>hasComments\<close> is true when
  \<open>markedStaleOn\<close> is empty and otherwise true iff a fetched comment has a user of type
  \<open>User\<close> whose login is not the actor; \<open>hasUpdate\<close> is true iff \<open>updated_at\<close> reads as a
  date within \<open>daysBeforeClose + daysBeforeStale\<close> days of the clock. Closing is
  \<open>closeIssue\<close>: the item is appended to \<open>closedIssues\<close>, a unit is charged, and unless
  dry-run the request \<open>issues.update\<close> with state \<open>closed\<close> is sent as the last request of
  the evaluation, which returns normally if the request is accepted and raises its error
  if it is rejected. Otherwise \<open>closedIssues\<close> stays as it was and no such request is sent.
\<close>

theorem processStaleIssue_closes_iff:
  assumes ev: "issues_listEvents e 100 (number issue) = Some events"
    and cm: "markedStaleOn issue lbl events \<noteq> [] \<longrightarrow>
               issues_listComments e (number issue) (markedStaleOn issue lbl events) = Some comments"
  shows "let since = markedStaleOn issue lbl events;
             hasComments = (since = []
                \<or> (\<exists>c\<in>set comments. type (user c) = ''User'' \<and> login (user c) \<noteq> actor e));
             hasUpdate = (\<exists>t. parseDate e (updated_at issue) = Some t
                \<and> clock e (dates s) - t
                    \<le> 86400000 * (daysBeforeClose opts + daysBeforeStale opts));
             closes = (0 \<le> daysBeforeClose opts \<and> \<not> hasComments \<and> \<not> hasUpdate);
             unstales = (removeStaleWhenUpdated opts \<and> hasComments);
             r = processStaleIssue opts e issue t lbl s
         in (closedIssues (snd r) = closedIssues s @ [issue]) = closes
          \<and> (closedIssues (snd r) = closedIssues s) = (\<not> closes)
          \<and> calls (snd r)
              = calls s @ [ListEvents 100 (number issue)]
                @ (if since = [] then [] else [ListComments (number issue) since])
                @ (if unstales \<and> \<not> debugOnly opts
                   then [RemoveLabel (number issue) (encodeURIComponent e lbl)] else [])
                @ (if closes \<and> \<not> debugOnly opts
                   then [Update (number issue) ''closed''] else [])
          \<and> operationsLeft (snd r)
              = operationsLeft s - 1 - (if unstales then 1 else 0) - (if closes then 1 else 0)
          \<and> (closes \<longrightarrow>
                fst r = (if debugOnly opts \<or> issues_update e (number issue) ''closed''
                         then Inr ()
                         else Inl (RequestError (Update (number issue) ''closed''))))"
  using processStaleIssue_closes_iff_aux [OF ev cm] .

text \<open>
  An item labelled stale 70 days ago and not updated since, with comments of the actor and
  of a bot only, is closed (60 + 7 days): three requests, the last one the close, and two
  units.
\<close>

theorem processStaleIssue_closes_iff_witness:
  "issues_listEvents
       (testEnv\<lparr>issues_listEvents := (\<lambda>n i. Some [labeledEvent ''1593952000'' ''Stale'']),
                issues_listComments := (\<lambda>i d. Some testComments)\<rparr>)
       100 (number (testIssue 1 ''1593952000'' [''Stale'']))
     = Some [labeledEvent ''1593952000'' ''Stale'']
   \<and> markedStaleOn (testIssue 1 ''1593952000'' [''Stale'']) ''Stale''
        [labeledEvent ''1593952000'' ''Stale''] = ''1593952000''
   \<and> issues_listComments
       (testEnv\<lparr>issues_listEvents := (\<lambda>n i. Some [labeledEvent ''1593952000'' ''Stale'']),
                issues_listComments := (\<lambda>i d. Some testComments)\<rparr>)
       (number (testIssue 1 ''1593952000'' [''Stale''])) ''1593952000'' = Some testComments
   \<and> closedIssues (snd (processStaleIssue testOptions
        (testEnv\<lparr>issues_listEvents := (\<lambda>n i. Some [labeledEvent ''1593952000'' ''Stale'']),
                 issues_listComments := (\<lambda>i d. Some testComments)\<rparr>)
        (testIssue 1 ''1593952000'' [''Stale'']) ''issue'' ''Stale'' (newProcessor testOptions)))
     = [testIssue 1 ''1593952000'' [''Stale'']]
   \<and> calls (snd (processStaleIssue testOptions
        (testEnv\<lparr>issues_listEvents := (\<lambda>n i. Some [labeledEvent ''1593952000'' ''Stale'']),
                 issues_listComments := (\<lambda>i d. Some testComments)\<rparr>)
        (testIssue 1 ''1593952000'' [''Stale'']) ''issue'' ''Stale'' (newProcessor testOptions)))
     = [ListEvents 100 1, ListComments 1 ''1593952000'', Update 1 ''closed'']
   \<and> operationsLeft (snd (processStaleIssue testOptions
        (testEnv\<lparr>issues_listEvents := (\<lambda>n i. Some [labeledEvent ''1593952000'' ''Stale'']),
                 issues_listComments := (\<lambda>i d. Some testComments)\<rparr>)
        (testIssue 1 ''1593952000'' [''Stale'']) ''issue'' ''Stale'' (newProcessor testOptions)))
     = 28
   \<and> fst (processStaleIssue testOptions
        (testEnv\<lparr>issues_listEvents := (\<lambda>n i. Some [labeledEvent ''1593952000'' ''Stale'']),
                 issues_listComments := (\<lambda>i d. Some testComments)\<rparr>)
        (testIssue 1 ''1593952000'' [''Stale'']) ''issue'' ''Stale'' (newProcessor testOptions))
     = Inr ()"
proof -
  let ?e = "testEnv\<lparr>issues_listEvents := (\<lambda>n i. Some [labeledEvent ''1593952000'' ''Stale'']),
                issues_listComments := (\<lambda>i d. Some testComments)\<rparr>"
  let ?i = "testIssue 1 ''1593952000'' [''Stale'']"
  let ?evs = "[labeledEvent ''1593952000'' ''Stale'']"
  let ?r = "processStaleIssue testOptions ?e ?i ''issue'' ''Stale'' (newProcessor testOptions)"
  have ev: "issues_listEvents ?e 100 (number ?i) = Some ?evs" by simp
  have m: "markedStaleOn ?i ''Stale'' ?evs = ''1593952000''"
    by (simp add: markedStaleOn_def labeledEvent_def)
  have c: "issues_listComments ?e (number ?i) ''1593952000'' = Some testComments" by simp
  have cm: "markedStaleOn ?i ''Stale'' ?evs \<noteq> [] \<longrightarrow>
      issues_listComments ?e (number ?i) (markedStaleOn ?i ''Stale'' ?evs) = Some testComments"
    by (simp add: m)
  have hc: "\<not> (\<exists>c\<in>set testComments. type (user c) = ''User'' \<and> login (user c) \<noteq> actor ?e)"
    by (simp add: testComments_def testEnv_def)
  have hu: "\<not> (\<exists>t. parseDate ?e (updated_at ?i) = Some t
                      \<and> clock ?e (dates (newProcessor testOptions)) - t
                          \<le> 86400000 * (daysBeforeClose testOptions + daysBeforeStale testOptions))"
    by (simp add: processor_defs host_defs)
  have o: "0 \<le> daysBeforeClose testOptions" "\<not> debugOnly testOptions"
      "issues_update ?e (number ?i) ''closed''" "operationsLeft (newProcessor testOptions) = 30"
      "closedIssues (newProcessor testOptions) = []" "calls (newProcessor testOptions) = []"
      "number ?i = 1"
    by (simp_all add: testOptions_def testEnv_def newProcessor_def testIssue_def)
  from processStaleIssue_closes_iff [OF ev cm, where opts = testOptions and t = "''issue''"
      and s = "newProcessor testOptions"]
  have "closedIssues (snd ?r) = [?i]
      \<and> calls (snd ?r) = [ListEvents 100 1, ListComments 1 ''1593952000'', Update 1 ''closed'']
      \<and> operationsLeft (snd ?r) = 28 \<and> fst ?r = Inr ()"
    unfolding Let_def m using hc hu o by simp
  then show ?thesis using ev m c by blast
qed

lemma processStaleIssue_closed_only_if:
  "closedIssues (snd (processStaleIssue opts e i t l s)) \<noteq> closedIssues s \<Longrightarrow>
   0 \<le> daysBeforeClose opts
   \<and> \<not> (\<exists>t. parseDate e (updated_at i) = Some t
             \<and> clock e (dates s) - t \<le> 86400000 * (daysBeforeClose opts + daysBeforeStale opts))"
  unfolding processStaleIssue_def Let_def case_prod_beta
  by (simp add: getLabelCreationDate_snd hasCommentsSince_snd updatedSince_eq removeLabel_snd
      closeIssue_snd split: sum.splits if_splits)

section \<open>Marking stale and closing in one evaluation\<close>

text \<open>
  C5, as amended: an item freshly marked stale in an evaluation is closed in that same
  evaluation only if \<open>daysBeforeClose \<ge> 0\<close> and the synthetic timestamp, as read back from
  its string, is not within \<open>daysBeforeClose + daysBeforeStale\<close> days of the clock at the
  closing check. So it is not closed when \<open>daysBeforeClose < 0\<close>, nor when the string reads
  back exactly and at most \<open>daysBeforeClose\<close> days pass between the clock read of
  \<open>markStale\<close> and that of the closing check.
\<close>

theorem processIssue_fresh_stale_closed_only_if:
  assumes fresh: "\<not> skips opts e issue"
      "\<not> isLabeled e issue (staleLabelFor opts issue)"
      "\<not> fst (updatedSince e (updated_at issue) (daysBeforeStale opts) s)"
  shows "(closedIssues (snd (processIssue opts e issue s)) \<noteq> closedIssues s \<longrightarrow>
            0 \<le> daysBeforeClose opts
            \<and> \<not> (\<exists>t. parseDate e (dateToString e
                           (clock e (Suc (dates s)) - 86400000 * daysBeforeStale opts)) = Some t
                      \<and> clock e (Suc (Suc (dates s))) - t
                          \<le> 86400000 * (daysBeforeClose opts + daysBeforeStale opts)))
       \<and> (parseDate e (dateToString e (clock e (Suc (dates s)) - 86400000 * daysBeforeStale opts))
              = Some (clock e (Suc (dates s)) - 86400000 * daysBeforeStale opts)
            \<and> clock e (Suc (Suc (dates s))) - clock e (Suc (dates s))
                  \<le> 86400000 * daysBeforeClose opts
          \<longrightarrow> closedIssues (snd (processIssue opts e issue s)) = closedIssues s)"
proof -
  let ?m = "markStale opts e issue (staleMessageFor opts issue) (staleLabelFor opts issue)
              (s\<lparr>dates := Suc (dates s)\<rparr>)"
  let ?i1 = "issue\<lparr>updated_at :=
                dateToString e (clock e (Suc (dates s)) - 86400000 * daysBeforeStale opts)\<rparr>"
  have p: "processIssue opts e issue s =
      (case ?m of (Inl err, issue1, s2) \<Rightarrow> (Inl err, s2)
       | (Inr u, issue1, s2) \<Rightarrow>
           processStaleIssue opts e issue1 (issueTypeFor issue) (staleLabelFor opts issue) s2)"
    using fresh by (simp add: processIssue_unfold)
  have i1: "fst (snd ?m) = ?i1" by (simp add: markStale_issue)
  have cl: "closedIssues (snd (snd ?m)) = closedIssues s" by (simp add: markStale_closedIssues)
  have dt: "dates (snd (snd ?m)) = Suc (Suc (dates s))" by (simp add: markStale_dates)
  have a: "0 \<le> daysBeforeClose opts
            \<and> \<not> (\<exists>t. parseDate e (dateToString e
                           (clock e (Suc (dates s)) - 86400000 * daysBeforeStale opts)) = Some t
                      \<and> clock e (Suc (Suc (dates s))) - t
                          \<le> 86400000 * (daysBeforeClose opts + daysBeforeStale opts))"
    if ne: "closedIssues (snd (processIssue opts e issue s)) \<noteq> closedIssues s"
  proof (cases "fst ?m")
    case (Inl err)
    then have "closedIssues (snd (processIssue opts e issue s)) = closedIssues s"
      unfolding p case_prod_beta using cl by simp
    then show ?thesis using ne by simp
  next
    case (Inr u)
    then have "processIssue opts e issue s =
        processStaleIssue opts e ?i1 (issueTypeFor issue) (staleLabelFor opts issue) (snd (snd ?m))"
      unfolding p case_prod_beta using i1 by simp
    then have "closedIssues (snd (processStaleIssue opts e ?i1 (issueTypeFor issue)
                 (staleLabelFor opts issue) (snd (snd ?m)))) \<noteq> closedIssues (snd (snd ?m))"
      using ne cl by simp
    from processStaleIssue_closed_only_if [OF this] show ?thesis
      unfolding dt by simp
  qed
  have b: "closedIssues (snd (processIssue opts e issue s)) = closedIssues s"
    if rt: "parseDate e (dateToString e (clock e (Suc (dates s)) - 86400000 * daysBeforeStale opts))
              = Some (clock e (Suc (dates s)) - 86400000 * daysBeforeStale opts)"
      and el: "clock e (Suc (Suc (dates s))) - clock e (Suc (dates s))
                  \<le> 86400000 * daysBeforeClose opts"
  proof (rule ccontr)
    assume "closedIssues (snd (processIssue opts e issue s)) \<noteq> closedIssues s"
    from a [OF this] rt
    have "\<not> clock e (Suc (Suc (dates s)))
              - (clock e (Suc (dates s)) - 86400000 * daysBeforeStale opts)
            \<le> 86400000 * (daysBeforeClose opts + daysBeforeStale opts)"
      by simp
    then show False using el by (simp add: algebra_simps)
  qed
  show ?thesis using a b by blast
qed

text \<open>With seven days before closing, the item marked stale stays open.\<close>

theorem processIssue_fresh_stale_closed_only_if_witness:
  "\<not> skips testOptions testEnv (testIssue 1 ''1591360000'' [''bug''])
   \<and> \<not> isLabeled testEnv (testIssue 1 ''1591360000'' [''bug''])
          (staleLabelFor testOptions (testIssue 1 ''1591360000'' [''bug'']))
   \<and> \<not> fst (updatedSince testEnv (updated_at (testIssue 1 ''1591360000'' [''bug'']))
               (daysBeforeStale testOptions) (newProcessor testOptions))
   \<and> parseDate testEnv (dateToString testEnv
         (clock testEnv (Suc (dates (newProcessor testOptions)))
            - 86400000 * daysBeforeStale testOptions)) = Some 1594816000000
   \<and> clock testEnv (Suc (Suc (dates (newProcessor testOptions)))) - 1594816000000
         \<le> 86400000 * (daysBeforeClose testOptions + daysBeforeStale testOptions)
   \<and> closedIssues (snd (processIssue testOptions testEnv (testIssue 1 ''1591360000'' [''bug''])
                           (newProcessor testOptions)))
       = closedIssues (newProcessor testOptions)"
proof -
  let ?i = "testIssue 1 ''1591360000'' [''bug'']"
  have a: "\<not> skips testOptions testEnv ?i"
    by (simp add: selection_defs processor_defs host_defs)
  have b: "\<not> isLabeled testEnv ?i (staleLabelFor testOptions ?i)"
    by (simp add: selection_defs processor_defs host_defs)
  have c: "\<not> fst (updatedSince testEnv (updated_at ?i) (daysBeforeStale testOptions)
                   (newProcessor testOptions))"
    by (simp add: processor_defs host_defs)
  have d: "parseDate testEnv (dateToString testEnv
         (clock testEnv (Suc (dates (newProcessor testOptions)))
            - 86400000 * daysBeforeStale testOptions)) = Some 1594816000000"
    by (simp add: processor_defs host_defs)
  have f: "clock testEnv (Suc (Suc (dates (newProcessor testOptions)))) - 1594816000000
         \<le> 86400000 * (daysBeforeClose testOptions + daysBeforeStale testOptions)"
    by (simp add: processor_defs host_defs)
  from processIssue_fresh_stale_closed_only_if [OF a b c] d f
  have "closedIssues (snd (processIssue testOptions testEnv ?i (newProcessor testOptions)))
       = closedIssues (newProcessor testOptions)"
    by blast
  then show ?thesis using a b c d f by blast
qed

text \<open>
  C5, as stated, fails: with \<open>daysBeforeClose = 0\<close> an item without the stale label, last
  updated 100 days ago, is marked stale and closed in the same evaluation (the comment in
  \<open>markStale\<close> says so: the user can request to close the issue immediately with
  \<open>days-before-close\<close> 0). The synthetic date is printed without its milliseconds and the
  clock has moved on, so at the closing check it is more than 60 days old.
\<close>

theorem fresh_stale_and_closed_counterexample:
  "\<not> isLabeled testEnv (testIssue 1 ''1591360000'' [''bug''])
        (staleIssueLabel (testOptions\<lparr>daysBeforeClose := 0\<rparr>))
   \<and> processIssue (testOptions\<lparr>daysBeforeClose := 0\<rparr>) testEnv
        (testIssue 1 ''1591360000'' [''bug'']) (newProcessor (testOptions\<lparr>daysBeforeClose := 0\<rparr>))
      = (Inr (),
         \<lparr>operationsLeft = 26,
          staleIssues = [testIssue 1 ''1594816000'' [''bug'']],
          closedIssues = [testIssue 1 ''1594816000'' [''bug'']],
          removedLabelIssues = [],
          calls = [CreateComment 1 ''This issue is stale'', AddLabels 1 [''Stale''],
                   ListEvents 100 1, ListComments 1 ''1594816000'', Update 1 ''closed''],
          dates = 3\<rparr>)"
  by (simp add: processor_defs host_defs Let_def)

section \<open>Dry-run\<close>

text \<open>
  When every write succeeds, each method run dry from the erased processor ends in the
  erased processor of the same method run for real.
\<close>

lemma dryRun_simps [simp]:
  "debugOnly (dryRun opts) = True"
  "daysBeforeStale (dryRun opts) = daysBeforeStale opts"
  "daysBeforeClose (dryRun opts) = daysBeforeClose opts"
  "removeStaleWhenUpdated (dryRun opts) = removeStaleWhenUpdated opts"
  "onlyLabels (dryRun opts) = onlyLabels opts"
  "stalePrMessage (dryRun opts) = stalePrMessage opts"
  "staleIssueMessage (dryRun opts) = staleIssueMessage opts"
  "stalePrLabel (dryRun opts) = stalePrLabel opts"
  "staleIssueLabel (dryRun opts) = staleIssueLabel opts"
  "exemptPrLabels (dryRun opts) = exemptPrLabels opts"
  "exemptIssueLabels (dryRun opts) = exemptIssueLabels opts"
  "operationsPerRun (dryRun opts) = operationsPerRun opts"
  by (simp_all add: dryRun_def)

lemma erase_simps [simp]:
  "erase (request c s) = (if isMutation c then erase s else request c (erase s))"
  "erase (spend n s) = spend n (erase s)"
  "erase (s\<lparr>dates := d\<rparr>) = (erase s)\<lparr>dates := d\<rparr>"
  "erase (s\<lparr>staleIssues := xs\<rparr>) = (erase s)\<lparr>staleIssues := xs\<rparr>"
  "erase (s\<lparr>closedIssues := xs\<rparr>) = (erase s)\<lparr>closedIssues := xs\<rparr>"
  "erase (s\<lparr>removedLabelIssues := xs\<rparr>) = (erase s)\<lparr>removedLabelIssues := xs\<rparr>"
  "operationsLeft (erase s) = operationsLeft s"
  "staleIssues (erase s) = staleIssues s"
  "closedIssues (erase s) = closedIssues s"
  "removedLabelIssues (erase s) = removedLabelIssues s"
  "dates (erase s) = dates s"
  "calls (erase s) = filter (\<lambda>c. \<not> isMutation c) (calls s)"
  by (simp_all add: erase_def request_def spend_def)
















section \<open>The batch driver\<close>









section \<open>What the budget counts\<close>

text \<open>
  The page fetch is charged one unit once it has returned (\<open>processIssues\<close>), the stale
  transition two (\<open>markStale_ops\<close>), the close one (\<open>closeIssue_ops\<close>), the label removal
  one (\<open>removeLabel_ops\<close>) and the fetch of the event history one
  (\<open>getLabelCreationDate_ops\<close>), these four before the request is sent and whether or not
  it succeeds; the fetch of the comments is not charged (\<open>hasCommentsSince_ops\<close>).
\<close>

text \<open>
  C1 at a failing input: a run over one item that carries the stale label sends four
  requests (two page fetches, the event history, the comments) and ends with 27 of its 30
  units, the comments fetch having cost nothing; and a run whose first page fetch is
  rejected has sent that request and still has its 30 units.
\<close>

theorem comments_fetch_not_charged:
  "run testOptions (testEnv\<lparr>issues_listForRepo := staleLabelledPage\<rparr>)
     = (Inr 27,
        \<lparr>operationsLeft = 27, staleIssues = [], closedIssues = [], removedLabelIssues = [],
         calls = [ListForRepo [] 100 1, ListEvents 100 7, ListComments 7 ''1599000000'',
                  ListForRepo [] 100 2],
         dates = 2\<rparr>)
   \<and> operationsPerRun testOptions = 30
   \<and> run testOptions (testEnv\<lparr>issues_listForRepo := (\<lambda>l n p. None)\<rparr>)
     = (Inl (RequestError (ListForRepo [] 100 1)),
        \<lparr>operationsLeft = 30, staleIssues = [], closedIssues = [], removedLabelIssues = [],
         calls = [ListForRepo [] 100 1], dates = 0\<rparr>)"
  by (simp add: run_def staleLabelledPage_def processor_defs host_defs Let_def)

end
